theory Spec2Isabelle
  imports Complex_Main "HOL-Library.Word"
begin

section \<open>Conventions of the embedding\<close>

text \<open>
  The engine's scalar type \<^verbatim>\<open>RealNum\<close> (\<^verbatim>\<open>float_t\<close> in Math.hpp) is a
  binary floating-point type. Where a function only does arithmetic it is embedded over
  \<^typ>\<open>real\<close>: the statements proved are those of exact arithmetic, rounding is not
  modelled. Where the code depends on the special values (the validity checks of a
  fixture definition) the scalar is a datatype of its own with infinities and NaN.

  Objects that the C++ code reaches through pointers (bodies, fixtures, contacts, joints,
  broad-phase proxies) are named by natural numbers and live in stores of the world state;
  intrusive linked lists become HOL lists in the same order.

  \<^verbatim>\<open>assert(e)\<close> aborts in a debug build and is compiled out under
  \<^verbatim>\<open>NDEBUG\<close>. Functions whose assertions can fire take the build as their first
  argument (\<open>ndebug\<close>) and return \<open>Inl AssertionFailed\<close> where the debug build
  would abort. Reading an array beyond its bounds is undefined in C++; a function that
  reaches such a read returns \<open>Inl OutOfBounds\<close> there.
\<close>

datatype failure = AssertionFailed | OutOfBounds

section \<open>Math.hpp: vectors, positions, sweeps\<close>

datatype Vec2 = Vec2 (Vec2_x: real) (Vec2_y: real)

definition Vec2_zero :: Vec2 where
  "Vec2_zero = Vec2 0 0"

definition Vec2_add :: "Vec2 \<Rightarrow> Vec2 \<Rightarrow> Vec2" where
  "Vec2_add u v = Vec2 (Vec2_x u + Vec2_x v) (Vec2_y u + Vec2_y v)"

definition Vec2_sub :: "Vec2 \<Rightarrow> Vec2 \<Rightarrow> Vec2" where
  "Vec2_sub u v = Vec2 (Vec2_x u - Vec2_x v) (Vec2_y u - Vec2_y v)"

definition Vec2_scale :: "Vec2 \<Rightarrow> real \<Rightarrow> Vec2" where
  "Vec2_scale v s = Vec2 (Vec2_x v * s) (Vec2_y v * s)"

text \<open>
  \<^verbatim>\<open>struct Position { Vec2 c; Angle a; }\<close>. The fields are called \<^verbatim>\<open>linear\<close> and
  \<^verbatim>\<open>angular\<close> in the unit tests; an \<^verbatim>\<open>Angle\<close> wraps its value in radians.
\<close>

record Position =
  linear :: Vec2
  angular :: real

definition Position_add :: "Position \<Rightarrow> Position \<Rightarrow> Position" where
  "Position_add p q = \<lparr>linear = Vec2_add (linear p) (linear q), angular = angular p + angular q\<rparr>"

definition Position_scale :: "Position \<Rightarrow> real \<Rightarrow> Position" where
  "Position_scale p s = \<lparr>linear = Vec2_scale (linear p) s, angular = angular p * s\<rparr>"

definition GetPosition :: "Position \<Rightarrow> Position \<Rightarrow> real \<Rightarrow> Position" where
  "GetPosition p0 p1 beta = Position_add (Position_scale p0 (1 - beta)) (Position_scale p1 beta)"

record Sweep =
  pos0 :: Position
  pos1 :: Position
  localCenter :: Vec2
  alpha0 :: real

text \<open>
  \<^verbatim>\<open>Sweep::Advance0\<close>. Its four assertions are \<^verbatim>\<open>IsValid(alpha)\<close> (always true of a
  real), \<^verbatim>\<open>alpha >= 0\<close>, \<^verbatim>\<open>alpha < 1\<close> and \<^verbatim>\<open>alpha0 < 1\<close>.
\<close>

definition Advance0 :: "bool \<Rightarrow> real \<Rightarrow> Sweep \<Rightarrow> failure + Sweep" where
  "Advance0 ndebug alpha s =
     (if \<not> ndebug \<and> \<not> (alpha \<ge> 0 \<and> alpha < 1 \<and> alpha0 s < 1) then Inl AssertionFailed
      else let beta = (alpha - alpha0 s) / (1 - alpha0 s) in
           Inr (s\<lparr>pos0 := GetPosition (pos0 s) (pos1 s) beta, alpha0 := alpha\<rparr>))"

section \<open>World.hpp and StepConf.hpp: default configurations\<close>

definition EarthlyGravity :: Vec2 where
  "EarthlyGravity = Vec2 0 (- (98 / 10))"

record World_Def =
  gravity :: Vec2
  linearSlop :: real
  angularSlop :: real
  maxVertexRadius :: real

text \<open>
  \<^verbatim>\<open>World::GetDefaultDef()\<close> returns \<^verbatim>\<open>Def{}\<close>, every member taking its default member
  initialiser. The constant \<^verbatim>\<open>LinearSlop\<close> is declared in Settings.hpp, which is not among
  the sources; it is a parameter.
\<close>

definition GetDefaultDef :: "real \<Rightarrow> World_Def" where
  "GetDefaultDef LinearSlop =
     \<lparr>gravity = EarthlyGravity, linearSlop = LinearSlop,
      angularSlop = pi * 2 / 180, maxVertexRadius = 255\<rparr>"

text \<open>
  \<^verbatim>\<open>class StepConf\<close>. The iteration counts have type \<^verbatim>\<open>ts_iters_t\<close>, an unsigned
  integer type of Settings.hpp; they are natural numbers here. The private members
  \<^verbatim>\<open>dt\<close> and \<^verbatim>\<open>inv_dt\<close> have no initialiser, so a default-constructed object holds
  indeterminate values there: they are arguments of the constructor below, as are the
  constants of Settings.hpp.
\<close>

record StepConf =
  dtRatio :: real
  minStillTimeToSleep :: real
  regResolutionRate :: real
  toiResolutionRate :: real
  velocityThreshold :: real
  maxTranslation :: real
  maxRotation :: real
  maxLinearCorrection :: real
  maxAngularCorrection :: real
  regVelocityIterations :: nat
  regPositionIterations :: nat
  toiVelocityIterations :: nat
  toiPositionIterations :: nat
  maxTOIRootIterCount :: nat
  maxTOIIterations :: nat
  maxSubSteps :: nat
  doWarmStart :: bool
  doToi :: bool
  dt :: real
  inv_dt :: real

definition StepConf_default :: "real \<Rightarrow> real \<Rightarrow> nat \<Rightarrow> nat \<Rightarrow> real \<Rightarrow> real \<Rightarrow> StepConf" where
  "StepConf_default LinearSlop AngularSlop MaxTOIRootIterCount MaxTOIIterations dt0 inv_dt0 =
     \<lparr>dtRatio = 1,
      minStillTimeToSleep = 1 / 2,
      regResolutionRate = 2 / 10,
      toiResolutionRate = 75 / 100,
      velocityThreshold = 8 / 10,
      maxTranslation = 4,
      maxRotation = 1 * pi / 2,
      maxLinearCorrection = LinearSlop * 40,
      maxAngularCorrection = AngularSlop * 4,
      regVelocityIterations = 8,
      regPositionIterations = 3,
      toiVelocityIterations = 8,
      toiPositionIterations = 20,
      maxTOIRootIterCount = MaxTOIRootIterCount,
      maxTOIIterations = MaxTOIIterations,
      maxSubSteps = 48,
      doWarmStart = True,
      doToi = True,
      dt = dt0,
      inv_dt = inv_dt0\<rparr>"

text \<open>\<^verbatim>\<open>StepConf::set_dt\<close>: the inverse is zero when the step is zero.\<close>

definition set_dt :: "real \<Rightarrow> StepConf \<Rightarrow> StepConf" where
  "set_dt v conf = conf\<lparr>dt := v, inv_dt := (if v \<noteq> 0 then 1 / v else 0)\<rparr>"

section \<open>The world state\<close>

text \<open>
  Pointers to bodies, fixtures, contacts, joints and broad-phase proxies are identifiers.
\<close>

type_synonym body_id = nat
type_synonym fixture_id = nat
type_synonym contact_id = nat
type_synonym joint_id = nat
type_synonym proxy_id = nat

text \<open>
  The scalar with the special values of a binary floating-point number, and its
  comparisons: every comparison with NaN is false.
\<close>

datatype RealNum = Finite real | PosInf | NegInf | NaN

fun RealNum_le :: "RealNum \<Rightarrow> RealNum \<Rightarrow> bool" where
  "RealNum_le NaN _ = False"
| "RealNum_le _ NaN = False"
| "RealNum_le NegInf _ = True"
| "RealNum_le _ PosInf = True"
| "RealNum_le (Finite a) (Finite b) = (a \<le> b)"
| "RealNum_le (Finite a) NegInf = False"
| "RealNum_le PosInf _ = False"

fun RealNum_less :: "RealNum \<Rightarrow> RealNum \<Rightarrow> bool" where
  "RealNum_less NaN _ = False"
| "RealNum_less _ NaN = False"
| "RealNum_less PosInf _ = False"
| "RealNum_less _ NegInf = False"
| "RealNum_less (Finite a) (Finite b) = (a < b)"
| "RealNum_less (Finite a) PosInf = True"
| "RealNum_less NegInf _ = True"

definition RealNum_ge :: "RealNum \<Rightarrow> RealNum \<Rightarrow> bool" where
  "RealNum_ge a b = RealNum_le b a"

definition RealNum_greater :: "RealNum \<Rightarrow> RealNum \<Rightarrow> bool" where
  "RealNum_greater a b = RealNum_less b a"

fun RealNum_neg :: "RealNum \<Rightarrow> RealNum" where
  "RealNum_neg (Finite a) = Finite (- a)"
| "RealNum_neg PosInf = NegInf"
| "RealNum_neg NegInf = PosInf"
| "RealNum_neg NaN = NaN"

text \<open>Multiplication (exact on finite operands; infinity times zero is NaN).\<close>

fun RealNum_inf_times :: "bool \<Rightarrow> real \<Rightarrow> RealNum" where
  "RealNum_inf_times positive b =
     (if b = 0 then NaN else if (0 < b) = positive then PosInf else NegInf)"

fun RealNum_times :: "RealNum \<Rightarrow> RealNum \<Rightarrow> RealNum" where
  "RealNum_times NaN _ = NaN"
| "RealNum_times _ NaN = NaN"
| "RealNum_times (Finite a) (Finite b) = Finite (a * b)"
| "RealNum_times PosInf (Finite b) = RealNum_inf_times True b"
| "RealNum_times NegInf (Finite b) = RealNum_inf_times False b"
| "RealNum_times (Finite a) PosInf = RealNum_inf_times True a"
| "RealNum_times (Finite a) NegInf = RealNum_inf_times False a"
| "RealNum_times PosInf PosInf = PosInf"
| "RealNum_times NegInf NegInf = PosInf"
| "RealNum_times PosInf NegInf = NegInf"
| "RealNum_times NegInf PosInf = NegInf"

datatype UnitVec2 = UnitVec2 (m_x: real) (m_y: real)

definition UnitVec2_of_angle :: "real \<Rightarrow> UnitVec2" where
  "UnitVec2_of_angle angle = UnitVec2 (cos angle) (sin angle)"

record Transformation =
  xf_p :: Vec2
  xf_q :: UnitVec2

record Velocity =
  vel_linear :: Vec2
  vel_angular :: real

definition Rotate :: "Vec2 \<Rightarrow> UnitVec2 \<Rightarrow> Vec2" where
  "Rotate vector angle =
     Vec2 (m_x angle * Vec2_x vector - m_y angle * Vec2_y vector)
          (m_y angle * Vec2_x vector + m_x angle * Vec2_y vector)"

definition InverseRotate :: "Vec2 \<Rightarrow> UnitVec2 \<Rightarrow> Vec2" where
  "InverseRotate vector angle =
     Vec2 (m_x angle * Vec2_x vector + m_y angle * Vec2_y vector)
          (m_x angle * Vec2_y vector - m_y angle * Vec2_x vector)"

definition Transform :: "Vec2 \<Rightarrow> Transformation \<Rightarrow> Vec2" where
  "Transform vec T = Vec2_add (Rotate vec (xf_q T)) (xf_p T)"

definition Dot :: "Vec2 \<Rightarrow> Vec2 \<Rightarrow> real" where
  "Dot a b = Vec2_x a * Vec2_x b + Vec2_y a * Vec2_y b"

definition Cross :: "Vec2 \<Rightarrow> Vec2 \<Rightarrow> real" where
  "Cross a b = Vec2_x a * Vec2_y b - Vec2_y a * Vec2_x b"

definition GetLengthSquared :: "Vec2 \<Rightarrow> real" where
  "GetLengthSquared value = Vec2_x value * Vec2_x value + Vec2_y value * Vec2_y value"

definition GetRevPerpendicular :: "Vec2 \<Rightarrow> Vec2" where
  "GetRevPerpendicular vector = Vec2 (- Vec2_y vector) (Vec2_x vector)"

definition GetTransformation :: "Position \<Rightarrow> Vec2 \<Rightarrow> Transformation" where
  "GetTransformation pos local_ctr =
     (let rot = UnitVec2_of_angle (angular pos) in
      \<lparr>xf_p = Vec2_sub (linear pos) (Rotate local_ctr rot), xf_q = rot\<rparr>)"

definition GetTransform0 :: "Sweep \<Rightarrow> Transformation" where
  "GetTransform0 sweep = GetTransformation (pos0 sweep) (localCenter sweep)"

text \<open>The constructor \<^verbatim>\<open>Sweep{p, lc}\<close>: both positions \<open>p\<close>, \<open>alpha0 = 0\<close>.\<close>

definition Sweep_of :: "Position \<Rightarrow> Vec2 \<Rightarrow> Sweep" where
  "Sweep_of pos lc = \<lparr>pos0 = pos, pos1 = pos, localCenter = lc, alpha0 = 0\<rparr>"

subsection \<open>Bodies, fixtures, contacts\<close>

datatype BodyType = Static | Kinematic | Dynamic

text \<open>
  \<^verbatim>\<open>Body::m_flags\<close> is a bit mask. The enumerators' values are declared in Body.hpp,
  which is not among the sources; the mask is the set of the enumerators whose bit is
  set, so \<^verbatim>\<open>|=\<close> is union, \<^verbatim>\<open>&= ~\<close> is set difference and
  \<^verbatim>\<open>(m_flags & x) == x\<close> is inclusion.
\<close>

datatype BodyFlag =
    e_impenetrableFlag | e_fixedRotationFlag | e_autoSleepFlag | e_awakeFlag
  | e_activeFlag | e_velocityFlag | e_accelerationFlag | e_massDataDirtyFlag

record BodyDef =
  bd_type :: BodyType
  bd_position :: Vec2
  bd_angle :: real
  bd_linearVelocity :: Vec2
  bd_angularVelocity :: real
  bd_linearDamping :: real
  bd_angularDamping :: real
  bd_allowSleep :: bool
  bd_awake :: bool
  bd_fixedRotation :: bool
  bd_bullet :: bool
  bd_active :: bool
  bd_sleepTime :: real

definition GetFlags :: "BodyDef \<Rightarrow> BodyFlag set" where
  "GetFlags bd =
     (let flags = {};
          flags = (if bd_bullet bd then flags \<union> {e_impenetrableFlag} else flags);
          flags = (if bd_fixedRotation bd then flags \<union> {e_fixedRotationFlag} else flags);
          flags = (if bd_allowSleep bd then flags \<union> {e_autoSleepFlag} else flags);
          flags = (if bd_awake bd then flags \<union> {e_awakeFlag} else flags);
          flags = (if bd_active bd then flags \<union> {e_activeFlag} else flags)
      in case bd_type bd of
           Dynamic \<Rightarrow> flags \<union> {e_velocityFlag, e_accelerationFlag}
         | Kinematic \<Rightarrow> flags \<union> {e_impenetrableFlag, e_velocityFlag}
         | Static \<Rightarrow> flags \<union> {e_impenetrableFlag})"

record ContactEdge =
  ce_other :: body_id
  ce_contact :: contact_id

record JointEdge =
  je_other :: body_id
  je_joint :: joint_id

record Body =
  m_flags :: "BodyFlag set"
  m_xf :: Transformation
  m_sweep :: Sweep
  m_velocity :: Velocity
  m_invMass :: real
  m_invI :: real
  m_linearAcceleration :: Vec2
  m_angularAcceleration :: real
  m_linearDamping :: real
  m_angularDamping :: real
  m_sleepTime :: real
  m_fixtures :: "fixture_id list"
  m_contactEdges :: "ContactEdge list"
  m_joints :: "JointEdge list"

text \<open>
  The constructor \<^verbatim>\<open>Body::Body(bd, world)\<close>; its assertions on the definition are the
  validity of the numbers (always true of reals) and non-negative damping.
\<close>

definition Body_new :: "bool \<Rightarrow> BodyDef \<Rightarrow> failure + Body" where
  "Body_new ndebug bd =
     (if \<not> ndebug \<and> \<not> (bd_angularDamping bd \<ge> 0 \<and> bd_linearDamping bd \<ge> 0)
      then Inl AssertionFailed
      else Inr \<lparr>m_flags = GetFlags bd,
                m_xf = \<lparr>xf_p = bd_position bd, xf_q = UnitVec2_of_angle (bd_angle bd)\<rparr>,
                m_sweep = Sweep_of \<lparr>linear = bd_position bd, angular = bd_angle bd\<rparr> Vec2_zero,
                m_velocity = \<lparr>vel_linear = bd_linearVelocity bd, vel_angular = bd_angularVelocity bd\<rparr>,
                m_invMass = (if bd_type bd = Dynamic then 1 else 0),
                m_invI = 0,
                m_linearAcceleration = Vec2_zero,
                m_angularAcceleration = 0,
                m_linearDamping = bd_linearDamping bd,
                m_angularDamping = bd_angularDamping bd,
                m_sleepTime = bd_sleepTime bd,
                m_fixtures = [],
                m_contactEdges = [],
                m_joints = []\<rparr>)"

text \<open>
  Modelled from the spec: the inline accessors of Body.hpp, which is not among the
  sources. The spec's flag set is \<open>{active, awake, fixedRotation, impenetrable,
  autoSleep, velocityCapable, accelerationCapable}\<close>; \<^verbatim>\<open>GetFlags\<close> above gives a dynamic
  body both capability flags, a kinematic body the velocity flag only and a static body
  neither. Waking a body sets its awake flag (and restarts the time it has been still).
  The world pose is \<open>sweep.pos1\<close> and the local center is \<open>sweep.localCenter\<close>.
\<close>

definition IsAccelerable :: "Body \<Rightarrow> bool" where
  "IsAccelerable b = (e_accelerationFlag \<in> m_flags b)"

definition IsSpeedable :: "Body \<Rightarrow> bool" where
  "IsSpeedable b = (e_velocityFlag \<in> m_flags b)"

definition IsActive :: "Body \<Rightarrow> bool" where
  "IsActive b = (e_activeFlag \<in> m_flags b)"

definition IsFixedRotation :: "Body \<Rightarrow> bool" where
  "IsFixedRotation b = (e_fixedRotationFlag \<in> m_flags b)"

definition GetType :: "Body \<Rightarrow> BodyType" where
  "GetType b =
     (if IsAccelerable b \<and> IsSpeedable b then Dynamic
      else if IsSpeedable b then Kinematic else Static)"

definition SetAwake :: "Body \<Rightarrow> Body" where
  "SetAwake b = b\<lparr>m_flags := m_flags b \<union> {e_awakeFlag}, m_sleepTime := 0\<rparr>"

definition SetMassDataDirty :: "Body \<Rightarrow> Body" where
  "SetMassDataDirty b = b\<lparr>m_flags := m_flags b \<union> {e_massDataDirtyFlag}\<rparr>"

definition UnsetMassDataDirty :: "Body \<Rightarrow> Body" where
  "UnsetMassDataDirty b = b\<lparr>m_flags := m_flags b - {e_massDataDirtyFlag}\<rparr>"

definition GetLocation :: "Body \<Rightarrow> Vec2" where
  "GetLocation b = xf_p (m_xf b)"

definition GetAngle :: "Body \<Rightarrow> real" where
  "GetAngle b = angular (pos1 (m_sweep b))"

definition GetWorldCenter :: "Body \<Rightarrow> Vec2" where
  "GetWorldCenter b = linear (pos1 (m_sweep b))"

definition GetLocalCenter :: "Body \<Rightarrow> Vec2" where
  "GetLocalCenter b = localCenter (m_sweep b)"

text \<open>
  Collision filter data: \<^verbatim>\<open>uint16 categoryBits\<close>, \<^verbatim>\<open>uint16 maskBits\<close>,
  \<^verbatim>\<open>int16 groupIndex\<close> (read with \<open>sint\<close>).
\<close>

record Filter =
  categoryBits :: "16 word"
  maskBits :: "16 word"
  groupIndex :: "16 word"

text \<open>Of a shape, Body.cpp reads the vertex radius only.\<close>

record Shape =
  vertexRadius :: RealNum

record FixtureDef =
  friction :: RealNum
  restitution :: RealNum
  density :: RealNum
  isSensor :: bool
  filter_data :: Filter

record Fixture =
  m_body :: body_id
  m_shape :: Shape
  m_density :: RealNum
  m_friction :: RealNum
  m_restitution :: RealNum
  m_isSensor :: bool
  m_filter :: Filter
  m_proxies :: "proxy_id list"

text \<open>
  Modelled from the spec: the flags of a contact (Contact.hpp is not among the sources).
  The spec gives a contact a \<open>touching\<close> flag and a \<open>filtered\<close> flag; \<^verbatim>\<open>Collide\<close> also
  enables it.
\<close>

datatype ContactFlag = e_enabledFlag | e_touchingFlag | e_filterFlag

record Contact =
  m_fixtureA :: fixture_id
  m_fixtureB :: fixture_id
  m_indexA :: nat
  m_indexB :: nat
  m_contactFlags :: "ContactFlag set"

definition IsTouching :: "Contact \<Rightarrow> bool" where
  "IsTouching c = (e_touchingFlag \<in> m_contactFlags c)"

definition NeedsFiltering :: "Contact \<Rightarrow> bool" where
  "NeedsFiltering c = (e_filterFlag \<in> m_contactFlags c)"

definition UnflagForFiltering :: "Contact \<Rightarrow> Contact" where
  "UnflagForFiltering c = c\<lparr>m_contactFlags := m_contactFlags c - {e_filterFlag}\<rparr>"

definition SetEnabled :: "Contact \<Rightarrow> Contact" where
  "SetEnabled c = c\<lparr>m_contactFlags := m_contactFlags c \<union> {e_enabledFlag}\<rparr>"

record Joint =
  m_collideConnected :: bool

record FixtureProxy =
  fp_fixture :: fixture_id
  fp_childIndex :: nat

text \<open>Calls made to the listeners, in order (most recent first).\<close>

datatype Event = EndContact contact_id | SayGoodbye_Fixture fixture_id

text \<open>
  The world with its contact manager. \<open>'bp\<close> is the state of the broad-phase
  (BroadPhase.hpp is not among the sources). \<^verbatim>\<open>World::m_flags\<close> is a \<^verbatim>\<open>uint32\<close>.
  A contact filter is a function of the two fixtures; a listener is present or not and
  the calls it receives are recorded in \<open>m_events\<close>.
\<close>

record 'bp World =
  m_worldFlags :: "32 word"
  bodies :: "body_id \<Rightarrow> Body"
  fixtures :: "fixture_id \<Rightarrow> Fixture"
  contacts :: "contact_id \<Rightarrow> Contact"
  joints :: "joint_id \<Rightarrow> Joint"
  m_contacts :: "contact_id list"
  m_broadPhase :: 'bp
  m_contactFilter :: "(Fixture \<Rightarrow> Fixture \<Rightarrow> bool) option"
  m_contactListener :: bool
  m_destructionListener :: bool
  m_events :: "Event list"
  m_gravity :: Vec2
  m_linearSlop :: RealNum
  m_maxVertexRadius :: RealNum

definition e_newFixture :: "32 word" where
  "e_newFixture = 0x0001"

definition e_locked :: "32 word" where
  "e_locked = 0x0002"

definition IsLocked :: "'bp World \<Rightarrow> bool" where
  "IsLocked world = (and (m_worldFlags world) e_locked = e_locked)"

definition SetNewFixtures :: "'bp World \<Rightarrow> 'bp World" where
  "SetNewFixtures world = world\<lparr>m_worldFlags := or (m_worldFlags world) e_newFixture\<rparr>"

definition GetMinVertexRadius :: "'bp World \<Rightarrow> RealNum" where
  "GetMinVertexRadius world = RealNum_times (m_linearSlop world) (Finite 2)"

definition GetMaxVertexRadius :: "'bp World \<Rightarrow> RealNum" where
  "GetMaxVertexRadius world = m_maxVertexRadius world"

definition update_body :: "body_id \<Rightarrow> (Body \<Rightarrow> Body) \<Rightarrow> 'bp World \<Rightarrow> 'bp World" where
  "update_body b f world = world\<lparr>bodies := (bodies world)(b := f (bodies world b))\<rparr>"

definition update_contact :: "contact_id \<Rightarrow> (Contact \<Rightarrow> Contact) \<Rightarrow> 'bp World \<Rightarrow> 'bp World" where
  "update_contact c f world = world\<lparr>contacts := (contacts world)(c := f (contacts world c))\<rparr>"

section \<open>WorldCallbacks.cpp: the default contact filter\<close>

definition ContactFilter_ShouldCollide :: "Fixture \<Rightarrow> Fixture \<Rightarrow> bool" where
  "ContactFilter_ShouldCollide fixtureA fixtureB =
     (let filterA = m_filter fixtureA; filterB = m_filter fixtureB in
      if groupIndex filterA = groupIndex filterB \<and> groupIndex filterA \<noteq> 0
      then 0 < sint (groupIndex filterA)
      else and (maskBits filterA) (categoryBits filterB) \<noteq> 0
           \<and> and (categoryBits filterA) (maskBits filterB) \<noteq> 0)"

section \<open>Body.cpp: collision eligibility\<close>

text \<open>The loop of \<^verbatim>\<open>Body::ShouldCollide\<close> over the joint edges of the body.\<close>

fun joints_allow :: "(joint_id \<Rightarrow> Joint) \<Rightarrow> body_id \<Rightarrow> JointEdge list \<Rightarrow> bool" where
  "joints_allow js other [] = True"
| "joints_allow js other (jn # rest) =
     (if je_other jn = other \<and> \<not> m_collideConnected (js (je_joint jn)) then False
      else joints_allow js other rest)"

definition ShouldCollide :: "'bp World \<Rightarrow> body_id \<Rightarrow> body_id \<Rightarrow> bool" where
  "ShouldCollide world this other =
     (if \<not> IsAccelerable (bodies world this) \<and> \<not> IsAccelerable (bodies world other)
      then False
      else joints_allow (joints world) other (m_joints (bodies world this)))"

section \<open>ContactManager.cpp\<close>

definition IsFor :: "Contact \<Rightarrow> fixture_id \<Rightarrow> nat \<Rightarrow> fixture_id \<Rightarrow> nat \<Rightarrow> bool" where
  "IsFor contact fixtureA indexA fixtureB indexB =
     (let fA = m_fixtureA contact; fB = m_fixtureB contact;
          iA = m_indexA contact; iB = m_indexB contact
      in (fA = fixtureA \<and> fB = fixtureB \<and> iA = indexA \<and> iB = indexB)
         \<or> (fA = fixtureB \<and> fB = fixtureA \<and> iA = indexB \<and> iB = indexA))"

text \<open>
  The search of \<^verbatim>\<open>ContactManager::Add\<close> through the contact edges of body B: is there
  an edge to body A whose contact is for the two fixtures and child indices?
\<close>

fun contact_exists ::
  "(contact_id \<Rightarrow> Contact) \<Rightarrow> body_id \<Rightarrow> fixture_id \<Rightarrow> nat \<Rightarrow> fixture_id \<Rightarrow> nat
     \<Rightarrow> ContactEdge list \<Rightarrow> bool" where
  "contact_exists cs bodyA fixtureA indexA fixtureB indexB [] = False"
| "contact_exists cs bodyA fixtureA indexA fixtureB indexB (contactEdge # rest) =
     (if ce_other contactEdge = bodyA
         \<and> IsFor (cs (ce_contact contactEdge)) fixtureA indexA fixtureB indexB
      then True
      else contact_exists cs bodyA fixtureA indexA fixtureB indexB rest)"

text \<open>
  \<^verbatim>\<open>ContactManager::Add(Contact* c)\<close>: link the contact at the front of both bodies' edge
  lists, wake the bodies unless a fixture is a sensor, and put the contact at the front
  of the world's list.
\<close>

definition Add_contact :: "contact_id \<Rightarrow> 'bp World \<Rightarrow> 'bp World" where
  "Add_contact c world =
     (let fixtureA = m_fixtureA (contacts world c);
          fixtureB = m_fixtureB (contacts world c);
          bodyA = m_body (fixtures world fixtureA);
          bodyB = m_body (fixtures world fixtureB);
          world = update_body bodyA (\<lambda>b. b\<lparr>m_contactEdges :=
                    \<lparr>ce_other = bodyB, ce_contact = c\<rparr> # m_contactEdges b\<rparr>) world;
          world = update_body bodyB (\<lambda>b. b\<lparr>m_contactEdges :=
                    \<lparr>ce_other = bodyA, ce_contact = c\<rparr> # m_contactEdges b\<rparr>) world;
          world = (if \<not> m_isSensor (fixtures world fixtureA) \<and> \<not> m_isSensor (fixtures world fixtureB)
                   then update_body bodyB SetAwake (update_body bodyA SetAwake world)
                   else world)
      in world\<lparr>m_contacts := c # m_contacts world\<rparr>)"

text \<open>
  \<^verbatim>\<open>ContactManager::Add(proxyA, proxyB)\<close>. The contact factory \<^verbatim>\<open>Contact::Create\<close>
  (Contact.cpp) and the constant \<^verbatim>\<open>MaxContacts\<close> (Settings.hpp) are not among the
  sources and are parameters: \<open>Create\<close> returns the address and the initial state of the
  new contact, or nothing for a null pointer.
\<close>

type_synonym 'bp Contact_Create =
  "'bp World \<Rightarrow> fixture_id \<Rightarrow> nat \<Rightarrow> fixture_id \<Rightarrow> nat \<Rightarrow> (contact_id \<times> Contact) option"

definition Add ::
  "bool \<Rightarrow> nat \<Rightarrow> 'bp Contact_Create \<Rightarrow> FixtureProxy \<Rightarrow> FixtureProxy \<Rightarrow> 'bp World
     \<Rightarrow> failure + (bool \<times> 'bp World)" where
  "Add ndebug MaxContacts Create proxyA proxyB world =
     (let fixtureA = fp_fixture proxyA;
          fixtureB = fp_fixture proxyB;
          bodyA = m_body (fixtures world fixtureA);
          bodyB = m_body (fixtures world fixtureB)
      in if bodyA = bodyB then Inr (False, world)
         else
           let childIndexA = fp_childIndex proxyA;
               childIndexB = fp_childIndex proxyB
           in if contact_exists (contacts world) bodyA fixtureA childIndexA fixtureB childIndexB
                   (m_contactEdges (bodies world bodyB))
              then Inr (False, world)
              else if \<not> ShouldCollide world bodyB bodyA then Inr (False, world)
              else if (case m_contactFilter world of
                         None \<Rightarrow> False
                       | Some flt \<Rightarrow> \<not> flt (fixtures world fixtureA) (fixtures world fixtureB))
              then Inr (False, world)
              else if \<not> ndebug \<and> \<not> length (m_contacts world) < MaxContacts
              then Inl AssertionFailed
              else case Create world fixtureA childIndexA fixtureB childIndexB of
                     None \<Rightarrow> (if ndebug then Inr (False, world) else Inl AssertionFailed)
                   | Some (c, contact) \<Rightarrow>
                       Inr (True, Add_contact c (world\<lparr>contacts := (contacts world)(c := contact)\<rparr>)))"

text \<open>
  \<^verbatim>\<open>ContactManager::Remove\<close>: erase the contact from the world's list and unlink its two
  nodes from the edge lists of its bodies. A node is in an intrusive list at most once,
  so unlinking it removes every occurrence. \<^verbatim>\<open>ContactManager::Destroy\<close>: tell the
  listener that a touching contact ends, remove the contact, free it.
\<close>

definition Remove :: "contact_id \<Rightarrow> 'bp World \<Rightarrow> 'bp World" where
  "Remove c world =
     (let world = world\<lparr>m_contacts := removeAll c (m_contacts world)\<rparr>;
          fixtureA = m_fixtureA (contacts world c);
          fixtureB = m_fixtureB (contacts world c);
          bodyA = m_body (fixtures world fixtureA);
          bodyB = m_body (fixtures world fixtureB);
          world = update_body bodyA (\<lambda>b. b\<lparr>m_contactEdges :=
                    removeAll \<lparr>ce_other = bodyB, ce_contact = c\<rparr> (m_contactEdges b)\<rparr>) world
      in update_body bodyB (\<lambda>b. b\<lparr>m_contactEdges :=
                    removeAll \<lparr>ce_other = bodyA, ce_contact = c\<rparr> (m_contactEdges b)\<rparr>) world)"

definition Destroy :: "contact_id \<Rightarrow> 'bp World \<Rightarrow> 'bp World" where
  "Destroy c world =
     (let world = (if m_contactListener world \<and> IsTouching (contacts world c)
                   then world\<lparr>m_events := EndContact c # m_events world\<rparr> else world)
      in Remove c world)"

text \<open>
  \<^verbatim>\<open>ContactManager::Collide\<close>. The statistics are \<^verbatim>\<open>uint32\<close> counters. The overlap test
  of two proxies in the broad-phase and \<^verbatim>\<open>Contact::Update\<close> are not among the sources and
  are parameters. \<^verbatim>\<open>c->Update(m_contactListener)\<close> computes the manifold and calls the
  listener, whose callbacks are user code with access to the whole world (they can set a
  velocity, which wakes a body): \<open>Update\<close> is a function from the world and the contact
  to the world after the call. Nothing is assumed of it here; what a property needs of
  it is a hypothesis of that property.
\<close>

record CollideStats =
  ignored :: "32 word"
  destroyed :: "32 word"
  updated :: "32 word"

definition is_collidable :: "Body \<Rightarrow> bool" where
  "is_collidable b = ({e_awakeFlag, e_velocityFlag} \<subseteq> m_flags b)"

text \<open>
  The overlap test of \<^verbatim>\<open>Collide\<close> on the proxies of the two children that the contact
  joins. A contact is created for two proxies of its fixtures, so its child indices are
  below the proxy counts; which proxy is read for an index beyond them is not specified
  here.
\<close>

definition contact_overlap :: "('bp \<Rightarrow> proxy_id \<Rightarrow> proxy_id \<Rightarrow> bool) \<Rightarrow> 'bp World \<Rightarrow> contact_id \<Rightarrow> bool" where
  "contact_overlap TestOverlap world c =
     (let indexA = m_indexA (contacts world c);
          indexB = m_indexB (contacts world c);
          proxyIdA = m_proxies (fixtures world (m_fixtureA (contacts world c))) ! indexA;
          proxyIdB = m_proxies (fixtures world (m_fixtureB (contacts world c))) ! indexB
      in TestOverlap (m_broadPhase world) proxyIdA proxyIdB)"

definition Collide_contact ::
  "('bp \<Rightarrow> proxy_id \<Rightarrow> proxy_id \<Rightarrow> bool) \<Rightarrow> ('bp World \<Rightarrow> contact_id \<Rightarrow> 'bp World)
     \<Rightarrow> contact_id \<Rightarrow> 'bp World \<times> CollideStats \<Rightarrow> 'bp World \<times> CollideStats" where
  "Collide_contact TestOverlap Update c state =
     (let world = fst state; stats = snd state;
          fixtureA = m_fixtureA (contacts world c);
          fixtureB = m_fixtureB (contacts world c);
          bodyA = m_body (fixtures world fixtureA);
          bodyB = m_body (fixtures world fixtureB)
      in if NeedsFiltering (contacts world c) \<and> \<not> ShouldCollide world bodyB bodyA
         then (Destroy c world, stats\<lparr>destroyed := destroyed stats + 1\<rparr>)
         else if NeedsFiltering (contacts world c)
                 \<and> (case m_contactFilter world of
                       None \<Rightarrow> False
                     | Some flt \<Rightarrow> \<not> flt (fixtures world fixtureA) (fixtures world fixtureB))
         then (Destroy c world, stats\<lparr>destroyed := destroyed stats + 1\<rparr>)
         else
           let world = (if NeedsFiltering (contacts world c)
                        then update_contact c UnflagForFiltering world else world)
           in if \<not> is_collidable (bodies world bodyA) \<and> \<not> is_collidable (bodies world bodyB)
              then (world, stats\<lparr>ignored := ignored stats + 1\<rparr>)
              else if \<not> contact_overlap TestOverlap world c
              then (Destroy c world, stats\<lparr>destroyed := destroyed stats + 1\<rparr>)
              else
                let world = update_contact c SetEnabled world;
                    world = Update world c
                in (world, stats\<lparr>updated := updated stats + 1\<rparr>))"

text \<open>
  The loop visits the contacts in list order; the successor is read before the visit, and
  \<^verbatim>\<open>Destroy\<close> removes the visited contact only, so the loop runs over the list as it was
  on entry. (A callback of \<open>Update\<close> that changed the contact list would leave the loop
  of the source with a stale successor; the property proved of \<open>Collide\<close> has \<open>Update\<close>
  leave the list alone, as one of its hypotheses.)
\<close>

fun Collide_loop ::
  "('bp \<Rightarrow> proxy_id \<Rightarrow> proxy_id \<Rightarrow> bool) \<Rightarrow> ('bp World \<Rightarrow> contact_id \<Rightarrow> 'bp World)
     \<Rightarrow> contact_id list \<Rightarrow> 'bp World \<times> CollideStats \<Rightarrow> 'bp World \<times> CollideStats" where
  "Collide_loop TestOverlap Update [] state = state"
| "Collide_loop TestOverlap Update (c # rest) state =
     Collide_loop TestOverlap Update rest (Collide_contact TestOverlap Update c state)"

definition Collide ::
  "('bp \<Rightarrow> proxy_id \<Rightarrow> proxy_id \<Rightarrow> bool) \<Rightarrow> ('bp World \<Rightarrow> contact_id \<Rightarrow> 'bp World)
     \<Rightarrow> 'bp World \<Rightarrow> 'bp World \<times> CollideStats" where
  "Collide TestOverlap Update world =
     Collide_loop TestOverlap Update (m_contacts world)
       (world, \<lparr>ignored = 0, destroyed = 0, updated = 0\<rparr>)"

section \<open>Body.cpp: fixtures, type and transform of a body\<close>

record MassData =
  md_mass :: real
  md_center :: Vec2
  md_I :: real

text \<open>
  The member functions of \<^verbatim>\<open>Fixture\<close> that Body.cpp calls are defined in Fixture.cpp,
  which is not among the sources; they are parameters, as is the mass of a fixture
  (MassData.cpp). \<open>CreateProxies\<close> gives the new broad-phase and the proxies of the
  fixture, one per child of its shape; \<open>DestroyProxies\<close> leaves the fixture without
  proxies.
\<close>

record 'bp Fixture_ops =
  CreateProxies :: "'bp \<Rightarrow> Fixture \<Rightarrow> Transformation \<Rightarrow> 'bp \<times> proxy_id list"
  DestroyProxies :: "'bp \<Rightarrow> Fixture \<Rightarrow> 'bp"
  TouchProxies :: "'bp \<Rightarrow> Fixture \<Rightarrow> 'bp"
  Synchronize :: "'bp \<Rightarrow> Fixture \<Rightarrow> Transformation \<Rightarrow> Transformation \<Rightarrow> 'bp"
  GetMassData :: "Fixture \<Rightarrow> MassData"

text \<open>\<^verbatim>\<open>box2d::ComputeMassData(const Body&)\<close>: the fixtures of positive density add up.\<close>

fun ComputeMassData_loop ::
  "(Fixture \<Rightarrow> MassData) \<Rightarrow> (fixture_id \<Rightarrow> Fixture) \<Rightarrow> fixture_id list \<Rightarrow> MassData \<Rightarrow> MassData" where
  "ComputeMassData_loop massOf fs [] acc = acc"
| "ComputeMassData_loop massOf fs (fixture # rest) acc =
     ComputeMassData_loop massOf fs rest
       (if RealNum_greater (m_density (fs fixture)) (Finite 0)
        then let massData = massOf (fs fixture) in
             \<lparr>md_mass = md_mass acc + md_mass massData,
              md_center = Vec2_add (md_center acc) (Vec2_scale (md_center massData) (md_mass massData)),
              md_I = md_I acc + md_I massData\<rparr>
        else acc)"

definition ComputeMassData ::
  "(Fixture \<Rightarrow> MassData) \<Rightarrow> (fixture_id \<Rightarrow> Fixture) \<Rightarrow> Body \<Rightarrow> MassData" where
  "ComputeMassData massOf fs b =
     ComputeMassData_loop massOf fs (m_fixtures b) \<lparr>md_mass = 0, md_center = Vec2_zero, md_I = 0\<rparr>"

definition ResetMassData ::
  "(Fixture \<Rightarrow> MassData) \<Rightarrow> (fixture_id \<Rightarrow> Fixture) \<Rightarrow> Body \<Rightarrow> Body" where
  "ResetMassData massOf fs b =
     (if \<not> IsAccelerable b
      then UnsetMassDataDirty
             (b\<lparr>m_invMass := 0, m_invI := 0,
                m_sweep := Sweep_of \<lparr>linear = GetLocation b, angular = GetAngle b\<rparr> Vec2_zero\<rparr>)
      else
        let massData = ComputeMassData massOf fs b;
            mass = (if md_mass massData > 0 then md_mass massData else 1);
            invMass = 1 / mass;
            localCenter = Vec2_scale (md_center massData) invMass;
            invI = (if md_I massData > 0 \<and> \<not> IsFixedRotation b
                    then 1 / (md_I massData - mass * GetLengthSquared localCenter) else 0);
            oldCenter = GetWorldCenter b;
            b = b\<lparr>m_invMass := invMass, m_invI := invI,
                  m_sweep := Sweep_of \<lparr>linear = Transform localCenter (m_xf b), angular = GetAngle b\<rparr>
                               localCenter\<rparr>;
            b = b\<lparr>m_velocity := (m_velocity b)\<lparr>vel_linear :=
                    Vec2_add (vel_linear (m_velocity b))
                      (Vec2_scale (GetRevPerpendicular (Vec2_sub (GetWorldCenter b) oldCenter))
                                  (vel_angular (m_velocity b)))\<rparr>\<rparr>
        in UnsetMassDataDirty b)"

text \<open>\<^verbatim>\<open>Body::SynchronizeFixtures(t1, t2)\<close> and \<^verbatim>\<open>Body::SynchronizeFixtures()\<close>.\<close>

definition SynchronizeFixtures_with ::
  "'bp Fixture_ops \<Rightarrow> Transformation \<Rightarrow> Transformation \<Rightarrow> body_id \<Rightarrow> 'bp World \<Rightarrow> 'bp World" where
  "SynchronizeFixtures_with ops t1 t2 b world =
     world\<lparr>m_broadPhase :=
       fold (\<lambda>fixture broadPhase. Synchronize ops broadPhase (fixtures world fixture) t1 t2)
            (m_fixtures (bodies world b)) (m_broadPhase world)\<rparr>"

definition SynchronizeFixtures :: "'bp Fixture_ops \<Rightarrow> body_id \<Rightarrow> 'bp World \<Rightarrow> 'bp World" where
  "SynchronizeFixtures ops b world =
     SynchronizeFixtures_with ops (GetTransform0 (m_sweep (bodies world b))) (m_xf (bodies world b))
       b world"

text \<open>
  \<^verbatim>\<open>Body::DestroyContacts\<close>: while the edge list is not empty, pop its front and destroy
  the contact of the popped edge. Destroying a contact only removes edges, so the list
  gets shorter in every round.
\<close>

function DestroyContacts :: "body_id \<Rightarrow> 'bp World \<Rightarrow> 'bp World" where
  "DestroyContacts b world =
     (case m_contactEdges (bodies world b) of
        [] \<Rightarrow> world
      | ce # rest \<Rightarrow>
          DestroyContacts b
            (Destroy (ce_contact ce) (update_body b (\<lambda>x. x\<lparr>m_contactEdges := rest\<rparr>) world)))"
  by pat_completeness auto
termination
proof (relation "measure (\<lambda>(b, world). length (m_contactEdges (bodies world b)))")
  show "wf (measure (\<lambda>(b, world :: 'bp World). length (m_contactEdges (bodies world b))))"
    by simp
next
  fix b :: body_id and world :: "'bp World" and ce rest
  assume edges: "m_contactEdges (bodies world b) = ce # rest"
  let ?w = "update_body b (\<lambda>x. x\<lparr>m_contactEdges := rest\<rparr>) world"
  have shrink: "length (m_contactEdges (bodies (Remove c w) x)) \<le> length (m_contactEdges (bodies w x))"
    for c x and w :: "'bp World"
  proof -
    have a: "length (removeAll e (removeAll e' es)) \<le> length es" for e e' :: ContactEdge and es
      by (meson le_trans length_removeAll_less_eq)
    show ?thesis
      by (simp add: Remove_def Let_def update_body_def a length_removeAll_less_eq)
  qed
  have "length (m_contactEdges (bodies (Destroy c w) x)) \<le> length (m_contactEdges (bodies w x))"
    for c x and w :: "'bp World"
    using shrink[of c w x] shrink[of c "w\<lparr>m_events := EndContact c # m_events w\<rparr>" x]
    by (simp add: Destroy_def Let_def)
  then have "length (m_contactEdges (bodies (Destroy (ce_contact ce) ?w) b))
          \<le> length (m_contactEdges (bodies ?w b))" .
  also have "\<dots> = length rest"
    by (simp add: update_body_def)
  finally show "((b, Destroy (ce_contact ce) ?w), (b, world))
                  \<in> measure (\<lambda>(b, world). length (m_contactEdges (bodies world b)))"
    by (simp add: edges)
qed

text \<open>\<^verbatim>\<open>Body::SetType\<close>.\<close>

definition SetType ::
  "bool \<Rightarrow> 'bp Fixture_ops \<Rightarrow> BodyType \<Rightarrow> body_id \<Rightarrow> 'bp World \<Rightarrow> failure + 'bp World" where
  "SetType ndebug ops type b world =
     (if \<not> ndebug \<and> IsLocked world then Inl AssertionFailed
      else if IsLocked world then Inr world
      else if GetType (bodies world b) = type then Inr world
      else
        let world = update_body b (\<lambda>x. x\<lparr>m_flags := m_flags x
                      - {e_impenetrableFlag, e_velocityFlag, e_accelerationFlag}\<rparr>) world;
            world = update_body b (\<lambda>x. x\<lparr>m_flags := m_flags x \<union>
                      (case type of
                         Dynamic \<Rightarrow> {e_velocityFlag, e_accelerationFlag}
                       | Kinematic \<Rightarrow> {e_impenetrableFlag, e_velocityFlag}
                       | Static \<Rightarrow> {e_impenetrableFlag})\<rparr>) world;
            world = update_body b (ResetMassData (GetMassData ops) (fixtures world)) world;
            world = (if type = Static
                     then SynchronizeFixtures ops b
                            (update_body b (\<lambda>x. x\<lparr>m_velocity := \<lparr>vel_linear = Vec2_zero, vel_angular = 0\<rparr>,
                                                   m_sweep := (m_sweep x)\<lparr>pos0 := pos1 (m_sweep x)\<rparr>\<rparr>) world)
                     else world);
            world = update_body b SetAwake world;
            world = update_body b (\<lambda>x. x\<lparr>m_linearAcceleration := Vec2_zero,
                                          m_angularAcceleration := 0\<rparr>) world;
            world = (if IsAccelerable (bodies world b)
                     then update_body b (\<lambda>x. x\<lparr>m_linearAcceleration :=
                            Vec2_add (m_linearAcceleration x) (m_gravity world)\<rparr>) world
                     else world);
            world = DestroyContacts b world
        in Inr (world\<lparr>m_broadPhase :=
                  fold (\<lambda>fixture broadPhase. TouchProxies ops broadPhase (fixtures world fixture))
                       (m_fixtures (bodies world b)) (m_broadPhase world)\<rparr>))"

text \<open>A scalar that is neither an infinity nor NaN.\<close>

fun RealNum_is_finite :: "RealNum \<Rightarrow> bool" where
  "RealNum_is_finite (Finite a) = True"
| "RealNum_is_finite PosInf = False"
| "RealNum_is_finite NegInf = False"
| "RealNum_is_finite NaN = False"

text \<open>The two \<^verbatim>\<open>IsValid\<close> functions of Body.cpp, on a shape pointer and on a definition.\<close>

definition IsValid_shape :: "Shape option \<Rightarrow> 'bp World \<Rightarrow> bool" where
  "IsValid_shape shape world =
     (case shape of
        None \<Rightarrow> False
      | Some sh \<Rightarrow>
          let vr = vertexRadius sh in
          if \<not> RealNum_ge vr (GetMinVertexRadius world) then False
          else if \<not> RealNum_le vr (GetMaxVertexRadius world) then False
          else True)"

definition IsValid_def :: "FixtureDef \<Rightarrow> bool" where
  "IsValid_def fdef =
     (if \<not> RealNum_ge (density fdef) (Finite 0) then False
      else if \<not> RealNum_ge (friction fdef) (Finite 0) then False
      else if \<not> RealNum_less (restitution fdef) PosInf then False
      else if \<not> RealNum_greater (restitution fdef) (RealNum_neg PosInf) then False
      else True)"

text \<open>
  Modelled from the spec: the constructor \<^verbatim>\<open>Fixture{this, def, shape}\<close> (Fixture.hpp is
  not among the sources). A fixture owns the shape, density, friction, restitution,
  sensor flag and filter of its definition and has no proxy until they are created.
\<close>

definition Fixture_new :: "body_id \<Rightarrow> FixtureDef \<Rightarrow> Shape \<Rightarrow> Fixture" where
  "Fixture_new b fdef shape =
     \<lparr>m_body = b, m_shape = shape, m_density = density fdef, m_friction = friction fdef,
      m_restitution = restitution fdef, m_isSensor = isSensor fdef, m_filter = filter_data fdef,
      m_proxies = []\<rparr>"

text \<open>
  \<^verbatim>\<open>Body::CreateFixture\<close>. The block allocator is not among the sources: \<open>Allocate\<close>
  gives the address of the new fixture. A null result is \<open>None\<close>.
\<close>

definition CreateFixture ::
  "bool \<Rightarrow> 'bp Fixture_ops \<Rightarrow> ('bp World \<Rightarrow> fixture_id) \<Rightarrow> Shape option \<Rightarrow> FixtureDef \<Rightarrow> bool
     \<Rightarrow> body_id \<Rightarrow> 'bp World \<Rightarrow> failure + (fixture_id option \<times> 'bp World)" where
  "CreateFixture ndebug ops Allocate shape fdef resetMassData b world =
     (if \<not> IsValid_shape shape world \<or> \<not> IsValid_def fdef then Inr (None, world)
      else if \<not> ndebug \<and> IsLocked world then Inl AssertionFailed
      else if IsLocked world then Inr (None, world)
      else
        let fixture = Allocate world;
            world = world\<lparr>fixtures := (fixtures world)(fixture := Fixture_new b fdef (the shape))\<rparr>;
            world = (if IsActive (bodies world b)
                     then let created = CreateProxies ops (m_broadPhase world) (fixtures world fixture)
                                          (m_xf (bodies world b))
                          in world\<lparr>m_broadPhase := fst created,
                                   fixtures := (fixtures world)
                                     (fixture := (fixtures world fixture)\<lparr>m_proxies := snd created\<rparr>)\<rparr>
                     else world);
            world = update_body b (\<lambda>x. x\<lparr>m_fixtures := fixture # m_fixtures x\<rparr>) world;
            world = (if RealNum_greater (m_density (fixtures world fixture)) (Finite 0)
                     then let world = update_body b SetMassDataDirty world
                          in if resetMassData
                             then update_body b (ResetMassData (GetMassData ops) (fixtures world)) world
                             else world
                     else world)
        in Inr (Some fixture, SetNewFixtures world))"

text \<open>
  \<^verbatim>\<open>Body::DestroyFixture\<close>. The loop over the contact edges reads the successor before
  it destroys a contact, and destroying a contact unlinks no other edge of this body, so
  the loop runs over the edge list as it was on entry.
\<close>

fun DestroyFixture_contacts :: "fixture_id \<Rightarrow> ContactEdge list \<Rightarrow> 'bp World \<Rightarrow> 'bp World" where
  "DestroyFixture_contacts fixture [] world = world"
| "DestroyFixture_contacts fixture (edge # rest) world =
     (let c = ce_contact edge;
          fixtureA = m_fixtureA (contacts world c);
          fixtureB = m_fixtureB (contacts world c)
      in DestroyFixture_contacts fixture rest
           (if fixture = fixtureA \<or> fixture = fixtureB then Destroy c world else world))"

definition DestroyFixture ::
  "bool \<Rightarrow> 'bp Fixture_ops \<Rightarrow> fixture_id \<Rightarrow> bool \<Rightarrow> body_id \<Rightarrow> 'bp World \<Rightarrow> failure + 'bp World" where
  "DestroyFixture ndebug ops fixture resetMassData b world =
     (if \<not> ndebug \<and> IsLocked world then Inl AssertionFailed
      else if IsLocked world then Inr world
      else if \<not> ndebug \<and> m_body (fixtures world fixture) \<noteq> b then Inl AssertionFailed
      else if \<not> ndebug \<and> fixture \<notin> set (m_fixtures (bodies world b)) then Inl AssertionFailed
      else
        let world = update_body b (\<lambda>x. x\<lparr>m_fixtures := removeAll fixture (m_fixtures x)\<rparr>) world;
            world = DestroyFixture_contacts fixture (m_contactEdges (bodies world b)) world;
            world = world\<lparr>m_broadPhase := DestroyProxies ops (m_broadPhase world) (fixtures world fixture),
                          fixtures := (fixtures world)
                            (fixture := (fixtures world fixture)\<lparr>m_proxies := []\<rparr>)\<rparr>;
            world = update_body b SetMassDataDirty world
        in Inr (if resetMassData
                then update_body b (ResetMassData (GetMassData ops) (fixtures world)) world
                else world))"

text \<open>\<^verbatim>\<open>Body::DestroyFixtures\<close>: pop every fixture, say goodbye, destroy its proxies.\<close>

fun DestroyFixtures_loop :: "'bp Fixture_ops \<Rightarrow> fixture_id list \<Rightarrow> 'bp World \<Rightarrow> 'bp World" where
  "DestroyFixtures_loop ops [] world = world"
| "DestroyFixtures_loop ops (fixture # rest) world =
     (let world = (if m_destructionListener world
                   then world\<lparr>m_events := SayGoodbye_Fixture fixture # m_events world\<rparr>
                   else world)
      in DestroyFixtures_loop ops rest
           (world\<lparr>m_broadPhase := DestroyProxies ops (m_broadPhase world) (fixtures world fixture),
                  fixtures := (fixtures world)
                    (fixture := (fixtures world fixture)\<lparr>m_proxies := []\<rparr>)\<rparr>))"

definition DestroyFixtures ::
  "bool \<Rightarrow> 'bp Fixture_ops \<Rightarrow> body_id \<Rightarrow> 'bp World \<Rightarrow> failure + 'bp World" where
  "DestroyFixtures ndebug ops b world =
     (if \<not> ndebug \<and> IsLocked world then Inl AssertionFailed
      else if IsLocked world then Inr world
      else
        let world = DestroyFixtures_loop ops (m_fixtures (bodies world b))
                      (update_body b (\<lambda>x. x\<lparr>m_fixtures := []\<rparr>) world)
        in Inr (update_body b (ResetMassData (GetMassData ops) (fixtures world)) world))"

text \<open>
  \<^verbatim>\<open>Body::SetTransform\<close>. Its first two assertions are the validity of the numbers,
  always true of reals.
\<close>

definition SetTransform ::
  "bool \<Rightarrow> 'bp Fixture_ops \<Rightarrow> Vec2 \<Rightarrow> real \<Rightarrow> body_id \<Rightarrow> 'bp World \<Rightarrow> failure + 'bp World" where
  "SetTransform ndebug ops position angle b world =
     (if \<not> ndebug \<and> IsLocked world then Inl AssertionFailed
      else if IsLocked world then Inr world
      else
        let xf = \<lparr>xf_p = position, xf_q = UnitVec2_of_angle angle\<rparr>;
            world = update_body b (\<lambda>x. x\<lparr>m_xf := xf\<rparr>) world;
            world = update_body b (\<lambda>x. x\<lparr>m_sweep :=
                      Sweep_of \<lparr>linear = Transform (GetLocalCenter x) xf, angular = angle\<rparr>
                               (GetLocalCenter x)\<rparr>) world
        in Inr (SynchronizeFixtures_with ops xf xf b world))"

section \<open>Distance.cpp and DistanceProxy.cpp: the GJK iteration\<close>






















section \<open>Mass data of a polygon\<close>

text \<open>
  Modelled from the spec: a polygon shape and \<^verbatim>\<open>PolygonShape::SetAsBox\<close>
  (PolygonShape.cpp is not among the sources; the unit test of the mass data calls
  \<^verbatim>\<open>SetAsBox(4, 1)\<close> and reads \<^verbatim>\<open>GetCentroid()\<close> and \<^verbatim>\<open>GetVertices()\<close>). The spec has a
  polygon hold counter-clockwise vertices and describes the box as the rectangle of
  half-widths \<open>(hx, hy)\<close> centered at the origin.
\<close>

record PolygonShape =
  polygon_vertices :: "Vec2 list"
  polygon_centroid :: Vec2

definition SetAsBox :: "real \<Rightarrow> real \<Rightarrow> PolygonShape" where
  "SetAsBox hx hy =
     \<lparr>polygon_vertices = [Vec2 hx (- hy), Vec2 hx hy, Vec2 (- hx) hy, Vec2 (- hx) (- hy)],
      polygon_centroid = Vec2_zero\<rparr>"

text \<open>
  Modelled from the spec: the mass data of a polygon of zero vertex radius (MassData.cpp
  is not among the sources). The spec: "Polygon mass uses signed-triangle integrals from
  the centroid; I about the origin combines polygon polar moment with the parallel-axis
  term if the centroid is off-origin." Every edge \<open>(v1, v2)\<close> spans a triangle with the
  centroid \<open>s\<close>; with \<open>e1 = v1 - s\<close>, \<open>e2 = v2 - s\<close> and \<open>D = Cross e1 e2\<close> its signed
  area is \<open>D / 2\<close>, its area-weighted centroid \<open>(D / 2) (e1 + e2) / 3\<close> and its polar
  moment about \<open>s\<close> is \<open>D (e1.x\<^sup>2 + e1.x e2.x + e2.x\<^sup>2 + e1.y\<^sup>2 + e1.y e2.y + e2.y\<^sup>2) / 12\<close>.
  The mass is the density times the area; the moment about the origin is the density
  times the polar moment about \<open>s\<close>, shifted by the parallel-axis theorem to the center
  of mass and from there to the origin.
\<close>

record triangle_sums =
  sum_area :: real
  sum_center :: Vec2
  sum_I :: real

definition add_triangle :: "Vec2 \<Rightarrow> Vec2 \<times> Vec2 \<Rightarrow> triangle_sums \<Rightarrow> triangle_sums" where
  "add_triangle s edge acc =
     (let e1 = Vec2_sub (fst edge) s;
          e2 = Vec2_sub (snd edge) s;
          D = Cross e1 e2;
          triangleArea = D / 2;
          intx2 = Vec2_x e1 * Vec2_x e1 + Vec2_x e2 * Vec2_x e1 + Vec2_x e2 * Vec2_x e2;
          inty2 = Vec2_y e1 * Vec2_y e1 + Vec2_y e2 * Vec2_y e1 + Vec2_y e2 * Vec2_y e2
      in \<lparr>sum_area = sum_area acc + triangleArea,
          sum_center = Vec2_add (sum_center acc) (Vec2_scale (Vec2_add e1 e2) (triangleArea / 3)),
          sum_I = sum_I acc + D * (intx2 + inty2) / 12\<rparr>)"

definition GetMassData_polygon :: "PolygonShape \<Rightarrow> real \<Rightarrow> MassData" where
  "GetMassData_polygon shape rho =
     (let vs = polygon_vertices shape;
          s = polygon_centroid shape;
          totals = fold (add_triangle s) (zip vs (rotate1 vs))
                   \<lparr>sum_area = 0, sum_center = Vec2_zero, sum_I = 0\<rparr>;
          mass = rho * sum_area totals;
          center = Vec2_scale (sum_center totals) (1 / sum_area totals);
          massCenter = Vec2_add center s
      in \<lparr>md_mass = mass, md_center = massCenter,
          md_I = rho * sum_I totals
                 + mass * (GetLengthSquared massCenter - GetLengthSquared center)\<rparr>)"

section \<open>ContactSolver.hpp, PositionConstraint.hpp: solving a position constraint\<close>

text \<open>
  \<^verbatim>\<open>struct ConstraintSolverConf\<close> with its default member initialisers and two of its
  setters. The unit tests set the maximum linear correction to infinity, so that member
  is a scalar with the special values; \<^verbatim>\<open>LinearSlop\<close> and \<^verbatim>\<open>AngularSlop\<close> are constants
  of Settings.hpp and are parameters.
\<close>

record ConstraintSolverConf =
  conf_resolutionRate :: real
  conf_linearSlop :: real
  conf_angularSlop :: real
  conf_maxLinearCorrection :: RealNum
  conf_maxAngularCorrection :: real

definition ConstraintSolverConf_default :: "real \<Rightarrow> real \<Rightarrow> ConstraintSolverConf" where
  "ConstraintSolverConf_default LinearSlop AngularSlop =
     \<lparr>conf_resolutionRate = 2 / 10, conf_linearSlop = LinearSlop, conf_angularSlop = AngularSlop,
      conf_maxLinearCorrection = Finite (LinearSlop * 20),
      conf_maxAngularCorrection = AngularSlop * 4\<rparr>"

definition UseResolutionRate :: "real \<Rightarrow> ConstraintSolverConf \<Rightarrow> ConstraintSolverConf" where
  "UseResolutionRate value conf = conf\<lparr>conf_resolutionRate := value\<rparr>"

definition UseMaxLinearCorrection :: "RealNum \<Rightarrow> ConstraintSolverConf \<Rightarrow> ConstraintSolverConf" where
  "UseMaxLinearCorrection value conf = conf\<lparr>conf_maxLinearCorrection := value\<rparr>"

text \<open>\<^verbatim>\<open>struct PositionConstraint\<close> and its \<^verbatim>\<open>BodyData\<close>; \<^verbatim>\<open>struct PositionSolution\<close>.\<close>

record BodyData =
  bd_index :: nat
  bd_invMass :: real
  bd_invI :: real
  bd_localCenter :: Vec2

text \<open>
  Modelled from the spec: a manifold whose reference face is on shape A or on shape B
  (Manifold.hpp is not among the sources). The spec: a \<open>faceA\<close> manifold has a
  reference face on A (a local normal and a local point of A) and local points on B, and
  \<open>faceB\<close> is the reverse.
\<close>

datatype Manifold_Type = e_faceA | e_faceB

record Manifold =
  manifold_type :: Manifold_Type
  manifold_localNormal :: Vec2
  manifold_localPoint :: Vec2
  manifold_points :: "Vec2 list"

record PositionConstraint =
  pc_manifold :: Manifold
  pc_bodyA :: BodyData
  pc_radiusA :: real
  pc_bodyB :: BodyData
  pc_radiusB :: real

record PositionSolution =
  pos_a :: Position
  pos_b :: Position
  min_separation :: real

text \<open>
  Modelled from the spec: the separation of one manifold point (ContactSolver.cpp is not
  among the sources). The spec: "Separation s is computed from the reference face's
  normal and the clipped point, adjusted for both vertex radii." The result is the
  normal from A to B in world coordinates, the clipped point, and the separation.
\<close>

record PositionSolverManifold =
  psm_normal :: Vec2
  psm_point :: Vec2
  psm_separation :: real

definition GetPSM ::
  "Manifold \<Rightarrow> Vec2 \<Rightarrow> Transformation \<Rightarrow> Transformation \<Rightarrow> real \<Rightarrow> PositionSolverManifold" where
  "GetPSM manifold point xfA xfB totalRadius =
     (case manifold_type manifold of
        e_faceA \<Rightarrow>
          let normal = Rotate (manifold_localNormal manifold) (xf_q xfA);
              planePoint = Transform (manifold_localPoint manifold) xfA;
              clipPoint = Transform point xfB
          in \<lparr>psm_normal = normal, psm_point = clipPoint,
              psm_separation = Dot (Vec2_sub clipPoint planePoint) normal - totalRadius\<rparr>
      | e_faceB \<Rightarrow>
          let normal = Rotate (manifold_localNormal manifold) (xf_q xfB);
              planePoint = Transform (manifold_localPoint manifold) xfB;
              clipPoint = Transform point xfA
          in \<lparr>psm_normal = Vec2 (- Vec2_x normal) (- Vec2_y normal), psm_point = clipPoint,
              psm_separation = Dot (Vec2_sub clipPoint planePoint) normal - totalRadius\<rparr>)"

text \<open>
  \<^verbatim>\<open>Clamp(a, -maxLinearCorrection, 0)\<close> of Math.hpp, that is
  \<^verbatim>\<open>Max(-maxLinearCorrection, Min(a, 0))\<close>, for a finite \<open>a\<close>: an infinite limit does
  not bound the correction. (A limit of NaN or of minus infinity is not a correction
  limit; it is read as no limit.)
\<close>

fun Clamp_correction :: "real \<Rightarrow> RealNum \<Rightarrow> real" where
  "Clamp_correction a (Finite m) = max (- m) (min a 0)"
| "Clamp_correction a PosInf = min a 0"
| "Clamp_correction a NegInf = min a 0"
| "Clamp_correction a NaN = min a 0"

text \<open>
  Modelled from the spec: the correction of one manifold point. The spec: "The
  correction clamps \<open>C = clamp(resolutionRate (s + linearSlop), -maxLinearCorrection, 0)\<close>
  and applies equal-and-opposite translations weighted by inverse masses and angular
  corrections weighted by inverse inertias", with the effective mass
  \<open>K = invMassA + invMassB + invIA (rA \<times> n)\<^sup>2 + invIB (rB \<times> n)\<^sup>2\<close>. The result is the
  pair of changes to the positions of A and of B.
\<close>

definition point_correction ::
  "ConstraintSolverConf \<Rightarrow> real \<Rightarrow> real \<Rightarrow> real \<Rightarrow> real \<Rightarrow> Vec2 \<Rightarrow> Vec2
     \<Rightarrow> PositionSolverManifold \<Rightarrow> Position \<times> Position" where
  "point_correction conf invMassA invIA invMassB invIB cA cB psm =
     (let rA = Vec2_sub (psm_point psm) cA;
          rB = Vec2_sub (psm_point psm) cB;
          rnA = Cross rA (psm_normal psm);
          rnB = Cross rB (psm_normal psm);
          K = invMassA + invMassB + invIA * (rnA * rnA) + invIB * (rnB * rnB);
          C = Clamp_correction (conf_resolutionRate conf * (psm_separation psm + conf_linearSlop conf))
                (conf_maxLinearCorrection conf);
          P = Vec2_scale (psm_normal psm) (- C / K)
      in (\<lparr>linear = Vec2_scale P (- invMassA), angular = - (invIA * Cross rA P)\<rparr>,
          \<lparr>linear = Vec2_scale P invMassB, angular = invIB * Cross rB P\<rparr>))"

text \<open>
  Modelled from the spec: \<^verbatim>\<open>SolvePositionConstraint\<close> (declared in ContactSolver.hpp,
  defined in ContactSolver.cpp which is not among the sources). Its declaration says that
  it "pushes apart the two given positions for every point in the contact position
  constraint and returns the minimum separation value from the position solver manifold
  for each point (prior to solving)". The spec does not say whether a later point is
  solved from the positions that an earlier point has corrected. Here every point is
  solved from the two given positions and the corrections are added; the unit tests of
  the two-point manifolds expect the angle and one coordinate to stay exactly as they
  were, which the corrections of the two points cancelling requires. A body that is not
  to be moved has its inverse mass and inverse inertia taken as zero. The constructor of
  a position constraint asserts that the manifold has a point; the minimum over no point
  is unspecified.
\<close>

definition SolvePositionConstraint ::
  "PositionConstraint \<Rightarrow> Position \<Rightarrow> bool \<Rightarrow> Position \<Rightarrow> bool \<Rightarrow> ConstraintSolverConf
     \<Rightarrow> PositionSolution" where
  "SolvePositionConstraint pc positionA moveA positionB moveB conf =
     (let invMassA = (if moveA then bd_invMass (pc_bodyA pc) else 0);
          invIA = (if moveA then bd_invI (pc_bodyA pc) else 0);
          invMassB = (if moveB then bd_invMass (pc_bodyB pc) else 0);
          invIB = (if moveB then bd_invI (pc_bodyB pc) else 0);
          xfA = GetTransformation positionA (bd_localCenter (pc_bodyA pc));
          xfB = GetTransformation positionB (bd_localCenter (pc_bodyB pc));
          psms = map (\<lambda>point. GetPSM (pc_manifold pc) point xfA xfB (pc_radiusA pc + pc_radiusB pc))
                     (manifold_points (pc_manifold pc));
          corrections = map (point_correction conf invMassA invIA invMassB invIB
                               (linear positionA) (linear positionB)) psms
      in \<lparr>pos_a = fold (\<lambda>c pos. Position_add pos (fst c)) corrections positionA,
          pos_b = fold (\<lambda>c pos. Position_add pos (snd c)) corrections positionB,
          min_separation = fold min (map psm_separation psms) (psm_separation (hd psms))\<rparr>)"

text \<open>
  The scenario of the unit test \<^verbatim>\<open>SolvePosConstraintsForHorOverlappingMovesHorOnly1\<close>:
  the manifold that the test asserts \<^verbatim>\<open>CollideShapes\<close> to return for the two squares, the
  position constraint built from it, and the configuration of the solver.
\<close>

definition scenario_manifold :: Manifold where
  "scenario_manifold =
     \<lparr>manifold_type = e_faceA, manifold_localNormal = Vec2 1 0, manifold_localPoint = Vec2 2 0,
      manifold_points = [Vec2 (- 2) 2, Vec2 (- 2) (- 2)]\<rparr>"

definition scenario_constraint :: PositionConstraint where
  "scenario_constraint =
     \<lparr>pc_manifold = scenario_manifold,
      pc_bodyA = \<lparr>bd_index = 0, bd_invMass = 1, bd_invI = 1, bd_localCenter = Vec2 0 0\<rparr>,
      pc_radiusA = 0,
      pc_bodyB = \<lparr>bd_index = 1, bd_invMass = 1, bd_invI = 1, bd_localCenter = Vec2 0 0\<rparr>,
      pc_radiusB = 0\<rparr>"

definition scenario_conf :: "real \<Rightarrow> real \<Rightarrow> ConstraintSolverConf" where
  "scenario_conf LinearSlop AngularSlop =
     UseMaxLinearCorrection PosInf
       (UseResolutionRate (2 / 10) (ConstraintSolverConf_default LinearSlop AngularSlop))"

definition scenario_solution :: "real \<Rightarrow> real \<Rightarrow> PositionSolution" where
  "scenario_solution LinearSlop AngularSlop =
     SolvePositionConstraint scenario_constraint
       \<lparr>linear = Vec2 (100 - 1) 0, angular = 0\<rparr> True
       \<lparr>linear = Vec2 (100 + 1) 0, angular = 0\<rparr> True
       (scenario_conf LinearSlop AngularSlop)"

section \<open>AABB.hpp and the overlap test of the broad-phase\<close>

text \<open>\<^verbatim>\<open>TestOverlap(const AABB&, const AABB&)\<close> is \<open>AABB_TestOverlap\<close> below.\<close>

record AABB =
  lowerBound :: Vec2
  upperBound :: Vec2

definition AABB_of :: "Vec2 \<Rightarrow> Vec2 \<Rightarrow> AABB" where
  "AABB_of a b =
     \<lparr>lowerBound = Vec2 (min (Vec2_x a) (Vec2_x b)) (min (Vec2_y a) (Vec2_y b)),
      upperBound = Vec2 (max (Vec2_x a) (Vec2_x b)) (max (Vec2_y a) (Vec2_y b))\<rparr>"

definition AABB_TestOverlap :: "AABB \<Rightarrow> AABB \<Rightarrow> bool" where
  "AABB_TestOverlap a b =
     (let d1 = Vec2_sub (lowerBound b) (upperBound a);
          d2 = Vec2_sub (lowerBound a) (upperBound b)
      in Vec2_x d1 \<le> 0 \<and> Vec2_y d1 \<le> 0 \<and> Vec2_x d2 \<le> 0 \<and> Vec2_y d2 \<le> 0)"

text \<open>
  Modelled from the spec: the broad-phase overlap test of two proxies (BroadPhase.hpp is
  not among the sources). The spec has the broad-phase keep one fat AABB per proxy and
  calls two proxies overlapping when their fat AABBs overlap; this broad-phase state is
  the map from proxies to fat AABBs. It instantiates the parameter of \<open>Collide\<close> in
  the examples.
\<close>

definition BroadPhase_TestOverlap :: "(proxy_id \<Rightarrow> AABB) \<Rightarrow> proxy_id \<Rightarrow> proxy_id \<Rightarrow> bool" where
  "BroadPhase_TestOverlap bp proxyIdA proxyIdB = AABB_TestOverlap (bp proxyIdA) (bp proxyIdB)"

section \<open>Invariants of the contact lists\<close>

definition contact_bodyA :: "'bp World \<Rightarrow> contact_id \<Rightarrow> body_id" where
  "contact_bodyA world c = m_body (fixtures world (m_fixtureA (contacts world c)))"

definition contact_bodyB :: "'bp World \<Rightarrow> contact_id \<Rightarrow> body_id" where
  "contact_bodyB world c = m_body (fixtures world (m_fixtureB (contacts world c)))"

text \<open>
  Every contact of the world's list has its node A in the edge list of the body of its
  fixture A and its node B in the edge list of the body of its fixture B.
\<close>

definition edges_linked :: "'bp World \<Rightarrow> bool" where
  "edges_linked world =
     (\<forall>c \<in> set (m_contacts world).
        \<lparr>ce_other = contact_bodyB world c, ce_contact = c\<rparr>
          \<in> set (m_contactEdges (bodies world (contact_bodyA world c)))
      \<and> \<lparr>ce_other = contact_bodyA world c, ce_contact = c\<rparr>
          \<in> set (m_contactEdges (bodies world (contact_bodyB world c))))"

text \<open>No contact of the list is for the fixtures and child indices of a later one.\<close>

fun unique_contacts :: "(contact_id \<Rightarrow> Contact) \<Rightarrow> contact_id list \<Rightarrow> bool" where
  "unique_contacts cs [] = True"
| "unique_contacts cs (c # rest) =
     ((\<forall>c' \<in> set rest. \<not> IsFor (cs c') (m_fixtureA (cs c)) (m_indexA (cs c))
                                       (m_fixtureB (cs c)) (m_indexB (cs c)))
      \<and> unique_contacts cs rest)"

definition contacts_invariant :: "'bp World \<Rightarrow> bool" where
  "contacts_invariant world =
     (edges_linked world \<and> unique_contacts (contacts world) (m_contacts world))"

text \<open>The live contacts for a pair of fixtures and child indices, in either order.\<close>

definition contacts_for :: "'bp World \<Rightarrow> fixture_id \<Rightarrow> nat \<Rightarrow> fixture_id \<Rightarrow> nat \<Rightarrow> contact_id list" where
  "contacts_for world fixtureA indexA fixtureB indexB =
     filter (\<lambda>c. IsFor (contacts world c) fixtureA indexA fixtureB indexB) (m_contacts world)"

section \<open>Example configurations\<close>

definition example_def :: "BodyType \<Rightarrow> bool \<Rightarrow> BodyDef" where
  "example_def t awake =
     \<lparr>bd_type = t, bd_position = Vec2_zero, bd_angle = 0, bd_linearVelocity = Vec2_zero,
      bd_angularVelocity = 0, bd_linearDamping = 0, bd_angularDamping = 0,
      bd_allowSleep = True, bd_awake = awake, bd_fixedRotation = False, bd_bullet = False,
      bd_active = True, bd_sleepTime = 0\<rparr>"

definition example_body :: "BodyType \<Rightarrow> bool \<Rightarrow> Body" where
  "example_body t awake = projr (Body_new True (example_def t awake))"

definition example_fixture :: "nat \<Rightarrow> Fixture" where
  "example_fixture i =
     \<lparr>m_body = i, m_shape = \<lparr>vertexRadius = Finite (1 / 100)\<rparr>, m_density = Finite 1,
      m_friction = Finite (2 / 10), m_restitution = Finite 0, m_isSensor = False,
      m_filter = \<lparr>categoryBits = 1, maskBits = 0xFFFF, groupIndex = 0\<rparr>,
      m_proxies = [i]\<rparr>"

text \<open>
  Five bodies, each with one fixture of one child: body 0 is static, body 1 dynamic and
  awake, body 2 kinematic and awake, bodies 3 and 4 dynamic and asleep. The fat AABB of
  proxy 0 is the box from \<open>(-10, -1)\<close> to \<open>(10, 1/2)\<close>; that of a proxy \<open>i > 0\<close> is
  the unit square with lower corner \<open>(10 i - 10, 10 i - 10)\<close>, so that only the boxes
  of proxies 0 and 1 overlap. There is no contact.
\<close>

definition example_world :: "(proxy_id \<Rightarrow> AABB) World" where
  "example_world =
     \<lparr>m_worldFlags = 0x0040,
      bodies = (\<lambda>i. if i = 0 then example_body Static False
                     else if i = 1 then example_body Dynamic True
                     else if i = 2 then example_body Kinematic True
                     else example_body Dynamic False),
      fixtures = example_fixture,
      contacts = (\<lambda>c. \<lparr>m_fixtureA = 0, m_fixtureB = 0, m_indexA = 0, m_indexB = 0,
                        m_contactFlags = {}\<rparr>),
      joints = (\<lambda>j. \<lparr>m_collideConnected = False\<rparr>),
      m_contacts = [],
      m_broadPhase = (\<lambda>i. if i = 0 then AABB_of (Vec2 (- 10) (- 1)) (Vec2 10 (1 / 2))
                            else AABB_of (Vec2 (10 * real i - 10) (10 * real i - 10))
                                         (Vec2 (10 * real i - 9) (10 * real i - 9))),
      m_contactFilter = Some ContactFilter_ShouldCollide,
      m_contactListener = False,
      m_destructionListener = False,
      m_events = [],
      m_gravity = EarthlyGravity,
      m_linearSlop = Finite (1 / 1000),
      m_maxVertexRadius = Finite 255\<rparr>"

text \<open>A contact factory that keeps the order of the fixtures and takes a fresh address.\<close>

definition example_Create :: "'bp Contact_Create" where
  "example_Create world fixtureA indexA fixtureB indexB =
     Some (Suc (fold max (m_contacts world) 0),
           \<lparr>m_fixtureA = fixtureA, m_fixtureB = fixtureB, m_indexA = indexA,
            m_indexB = indexB, m_contactFlags = {e_enabledFlag}\<rparr>)"

text \<open>
  The example world with one contact, number 7, between the fixtures of the sleeping
  bodies 3 and 4, whose proxies do not overlap.
\<close>

definition example_world_asleep :: "(proxy_id \<Rightarrow> AABB) World" where
  "example_world_asleep =
     example_world
       \<lparr>bodies := (bodies example_world)
          (3 := (example_body Dynamic False)\<lparr>m_contactEdges := [\<lparr>ce_other = 4, ce_contact = 7\<rparr>]\<rparr>,
           4 := (example_body Dynamic False)\<lparr>m_contactEdges := [\<lparr>ce_other = 3, ce_contact = 7\<rparr>]\<rparr>),
        contacts := (contacts example_world)
          (7 := \<lparr>m_fixtureA = 3, m_fixtureB = 4, m_indexA = 0, m_indexB = 0,
                 m_contactFlags = {e_enabledFlag}\<rparr>),
        m_contacts := [7]\<rparr>"

text \<open>
  The example world with one contact, number 5, between the fixture of the awake dynamic
  body 1 and the fixture of the static body 0, whose proxies overlap.
\<close>

definition example_world_touching :: "(proxy_id \<Rightarrow> AABB) World" where
  "example_world_touching =
     example_world
       \<lparr>bodies := (bodies example_world)
          (1 := (example_body Dynamic True)\<lparr>m_contactEdges := [\<lparr>ce_other = 0, ce_contact = 5\<rparr>]\<rparr>,
           0 := (example_body Static False)\<lparr>m_contactEdges := [\<lparr>ce_other = 1, ce_contact = 5\<rparr>]\<rparr>),
        contacts := (contacts example_world)
          (5 := \<lparr>m_fixtureA = 1, m_fixtureB = 0, m_indexA = 0, m_indexB = 0,
                 m_contactFlags = {e_enabledFlag}\<rparr>),
        m_contacts := [5]\<rparr>"

text \<open>
  An update that finds the contact touching and tells the listener nothing, and one whose
  listener also sets a velocity on body 3, which wakes it (\<^verbatim>\<open>Body::SetVelocity\<close> calls
  \<^verbatim>\<open>SetAwake\<close> and has no guard on the lock).
\<close>

definition example_Update :: "'bp World \<Rightarrow> contact_id \<Rightarrow> 'bp World" where
  "example_Update world c =
     update_contact c (\<lambda>k. k\<lparr>m_contactFlags := m_contactFlags k \<union> {e_touchingFlag}\<rparr>) world"

definition example_Update_waking :: "'bp World \<Rightarrow> contact_id \<Rightarrow> 'bp World" where
  "example_Update_waking world c = update_body 3 SetAwake (example_Update world c)"

text \<open>
  The example world with both contacts: number 7 between the sleeping bodies 3 and 4
  (disjoint proxies) ahead of number 5 between bodies 1 and 0 (overlapping proxies).
\<close>

definition example_world_two_contacts :: "(proxy_id \<Rightarrow> AABB) World" where
  "example_world_two_contacts =
     example_world_asleep
       \<lparr>bodies := (bodies example_world_asleep)
          (1 := (example_body Dynamic True)\<lparr>m_contactEdges := [\<lparr>ce_other = 0, ce_contact = 5\<rparr>]\<rparr>,
           0 := (example_body Static False)\<lparr>m_contactEdges := [\<lparr>ce_other = 1, ce_contact = 5\<rparr>]\<rparr>),
        contacts := (contacts example_world_asleep)
          (5 := \<lparr>m_fixtureA = 1, m_fixtureB = 0, m_indexA = 0, m_indexB = 0,
                 m_contactFlags = {e_enabledFlag}\<rparr>),
        m_contacts := [7, 5]\<rparr>"

text \<open>The example world inside a step callback: the locked flag is set.\<close>

definition example_world_locked :: "(proxy_id \<Rightarrow> AABB) World" where
  "example_world_locked = example_world\<lparr>m_worldFlags := 0x0042\<rparr>"

text \<open>
  Fixture operations that leave the broad-phase alone and give a new fixture one proxy,
  an allocator that returns address 9, and a fixture definition with the default
  friction \<open>0.2\<close> and density 1.
\<close>

definition example_ops :: "(proxy_id \<Rightarrow> AABB) Fixture_ops" where
  "example_ops =
     \<lparr>CreateProxies = (\<lambda>broadPhase fixture xf. (broadPhase, [9])),
      DestroyProxies = (\<lambda>broadPhase fixture. broadPhase),
      TouchProxies = (\<lambda>broadPhase fixture. broadPhase),
      Synchronize = (\<lambda>broadPhase fixture t1 t2. broadPhase),
      GetMassData = (\<lambda>fixture. \<lparr>md_mass = 1, md_center = Vec2_zero, md_I = 1\<rparr>)\<rparr>"

definition example_Allocate :: "'bp World \<Rightarrow> fixture_id" where
  "example_Allocate world = 9"

definition example_FixtureDef :: "RealNum \<Rightarrow> FixtureDef" where
  "example_FixtureDef d =
     \<lparr>friction = Finite (2 / 10), restitution = Finite 0, density = d, isSensor = False,
      filter_data = \<lparr>categoryBits = 1, maskBits = 0xFFFF, groupIndex = 0\<rparr>\<rparr>"

text \<open>
  A run that frees the fixtures of a body in contact. It starts from the example world
  with contact 5 in which body 1 lists its fixture 1 and body 0 its fixture 0.
  \<^verbatim>\<open>DestroyFixtures\<close> is called on body 1; then a fixture is created on body 3 by an
  allocator that hands out the address it has just got back, that of fixture 1.
\<close>

definition example_world_attached :: "(proxy_id \<Rightarrow> AABB) World" where
  "example_world_attached =
     example_world_touching
       \<lparr>bodies := (bodies example_world_touching)
          (1 := (bodies example_world_touching 1)\<lparr>m_fixtures := [1]\<rparr>,
           0 := (bodies example_world_touching 0)\<lparr>m_fixtures := [0]\<rparr>)\<rparr>"

definition example_world_freed :: "(proxy_id \<Rightarrow> AABB) World" where
  "example_world_freed =
     (case DestroyFixtures False example_ops 1 example_world_attached of
        Inr world \<Rightarrow> world
      | Inl failed \<Rightarrow> example_world_attached)"

definition example_Allocate_reuse :: "'bp World \<Rightarrow> fixture_id" where
  "example_Allocate_reuse world = 1"

definition example_world_reused :: "(proxy_id \<Rightarrow> AABB) World" where
  "example_world_reused =
     (case CreateFixture False example_ops example_Allocate_reuse
             (Some \<lparr>vertexRadius = Finite (1 / 100)\<rparr>) (example_FixtureDef (Finite 1)) True 3
             example_world_freed of
        Inr (fixture, world) \<Rightarrow> world
      | Inl failed \<Rightarrow> example_world_freed)"




section \<open>Auxiliary notions for the proofs about \<open>Collide\<close>\<close>




section \<open>Notions of the claim about the GJK iteration\<close>











section \<open>Properties\<close>

subsection \<open>Sweep\<close>

text \<open>
  Claim C6. For a sweep with \<open>alpha0 < 1\<close> and a time factor \<open>alpha\<close> in \<open>[0, 1)\<close>,
  \<^verbatim>\<open>Advance0(alpha)\<close> returns normally in either build, replaces \<open>pos0\<close> by the
  interpolation \<open>pos0 * (1 - beta) + pos1 * beta\<close> at the normalised fraction
  \<open>beta = (alpha - alpha0) / (1 - alpha0)\<close>, sets \<open>alpha0\<close> to \<open>alpha\<close>, and leaves
  \<open>pos1\<close> and \<open>localCenter\<close> as they were.
\<close>

theorem Advance0_interpolates:
  assumes "alpha0 s < 1" and "0 \<le> alpha" and "alpha < 1"
  shows "\<exists>s'. Advance0 ndebug alpha s = Inr s'
           \<and> pos0 s' = Position_add
                 (Position_scale (pos0 s) (1 - (alpha - alpha0 s) / (1 - alpha0 s)))
                 (Position_scale (pos1 s) ((alpha - alpha0 s) / (1 - alpha0 s)))
           \<and> alpha0 s' = alpha
           \<and> pos1 s' = pos1 s
           \<and> localCenter s' = localCenter s"
  using assms by (simp add: Advance0_def GetPosition_def Let_def)

theorem Advance0_interpolates_witness:
  "Advance0 False (1 / 2)
     \<lparr>pos0 = \<lparr>linear = Vec2 0 0, angular = 0\<rparr>, pos1 = \<lparr>linear = Vec2 4 8, angular = 2\<rparr>,
      localCenter = Vec2 1 1, alpha0 = 0\<rparr>
   = Inr \<lparr>pos0 = \<lparr>linear = Vec2 2 4, angular = 1\<rparr>, pos1 = \<lparr>linear = Vec2 4 8, angular = 2\<rparr>,
      localCenter = Vec2 1 1, alpha0 = 1 / 2\<rparr>"
  using Advance0_interpolates
    [of "\<lparr>pos0 = \<lparr>linear = Vec2 0 0, angular = 0\<rparr>, pos1 = \<lparr>linear = Vec2 4 8, angular = 2\<rparr>,
          localCenter = Vec2 1 1, alpha0 = 0\<rparr>" "1 / 2" False]
  by (auto simp add: Position_add_def Position_scale_def Vec2_add_def Vec2_scale_def)

subsection \<open>Default configurations\<close>

text \<open>
  Claim C9. A default-constructed \<^verbatim>\<open>World::Def\<close> has gravity \<open>(0, -9.8)\<close>, angular slop
  \<open>2 pi / 180\<close> and maximum vertex radius \<open>255\<close>; a default-constructed \<^verbatim>\<open>StepConf\<close>
  has 8 regular velocity iterations, 3 regular position iterations, 8 TOI velocity
  iterations, 20 TOI position iterations, 48 sub-steps at most, velocity threshold
  \<open>0.8\<close>, maximum translation \<open>4\<close>, maximum rotation \<open>pi / 2\<close>, regular resolution rate
  \<open>0.2\<close>, TOI resolution rate \<open>0.75\<close>, warm starting and TOI enabled, and a minimum still
  time to sleep of \<open>0.5\<close>.
\<close>

theorem default_configurations:
  "gravity (GetDefaultDef ls) = Vec2 0 (- 9.8)
   \<and> angularSlop (GetDefaultDef ls) = 2 * pi / 180
   \<and> maxVertexRadius (GetDefaultDef ls) = 255
   \<and> regVelocityIterations (StepConf_default ls asl r i d e) = 8
   \<and> regPositionIterations (StepConf_default ls asl r i d e) = 3
   \<and> toiVelocityIterations (StepConf_default ls asl r i d e) = 8
   \<and> toiPositionIterations (StepConf_default ls asl r i d e) = 20
   \<and> maxSubSteps (StepConf_default ls asl r i d e) = 48
   \<and> velocityThreshold (StepConf_default ls asl r i d e) = 0.8
   \<and> maxTranslation (StepConf_default ls asl r i d e) = 4
   \<and> maxRotation (StepConf_default ls asl r i d e) = pi / 2
   \<and> regResolutionRate (StepConf_default ls asl r i d e) = 0.2
   \<and> toiResolutionRate (StepConf_default ls asl r i d e) = 0.75
   \<and> doWarmStart (StepConf_default ls asl r i d e)
   \<and> doToi (StepConf_default ls asl r i d e)
   \<and> minStillTimeToSleep (StepConf_default ls asl r i d e) = 0.5"
  by (simp add: GetDefaultDef_def StepConf_default_def EarthlyGravity_def)

subsection \<open>Collision eligibility of bodies\<close>

lemma GetFlags_not_dynamic:
  "bd_type bd \<noteq> Dynamic \<Longrightarrow> e_accelerationFlag \<notin> GetFlags bd"
  by (cases "bd_type bd") (simp_all add: GetFlags_def Let_def)

text \<open>
  Claim C10. When neither body of a broad-phase pair is accelerable,
  \<^verbatim>\<open>Body::ShouldCollide\<close> is false and \<^verbatim>\<open>ContactManager::Add\<close> returns false leaving
  the world as it was, in either build. A body constructed from a definition whose type
  is not dynamic (static or kinematic) is not accelerable, so static-static,
  kinematic-kinematic and kinematic-static pairs get no contact.
\<close>

theorem Add_needs_accelerable_body:
  assumes "\<not> IsAccelerable (bodies world (m_body (fixtures world (fp_fixture proxyA))))"
      and "\<not> IsAccelerable (bodies world (m_body (fixtures world (fp_fixture proxyB))))"
  shows "\<not> ShouldCollide world (m_body (fixtures world (fp_fixture proxyB)))
                               (m_body (fixtures world (fp_fixture proxyA)))
       \<and> Add ndebug MaxContacts Create proxyA proxyB world = Inr (False, world)
       \<and> (bd_type bd \<noteq> Dynamic \<longrightarrow> Body_new True bd = Inr b \<longrightarrow> \<not> IsAccelerable b)"
proof -
  have "bd_type bd \<noteq> Dynamic \<longrightarrow> Body_new True bd = Inr b \<longrightarrow> \<not> IsAccelerable b"
    using GetFlags_not_dynamic[of bd] by (auto simp: Body_new_def IsAccelerable_def)
  with assms show ?thesis by (simp add: Add_def Let_def ShouldCollide_def)
qed

theorem Add_needs_accelerable_body_witness:
  "\<not> ShouldCollide example_world 0 2
   \<and> Add False 10 example_Create \<lparr>fp_fixture = 2, fp_childIndex = 0\<rparr>
        \<lparr>fp_fixture = 0, fp_childIndex = 0\<rparr> example_world = Inr (False, example_world)
   \<and> \<not> IsAccelerable (example_body Kinematic True)"
  using Add_needs_accelerable_body[where world = example_world
      and proxyA = "\<lparr>fp_fixture = 2, fp_childIndex = 0\<rparr>"
      and proxyB = "\<lparr>fp_fixture = 0, fp_childIndex = 0\<rparr>"
      and ndebug = False and MaxContacts = 10 and Create = example_Create
      and bd = "example_def Kinematic True" and b = "example_body Kinematic True"]
  by (simp add: example_world_def example_body_def Body_new_def example_def_def
      IsAccelerable_def GetFlags_def example_fixture_def)

subsection \<open>At most one contact per pair of fixture children\<close>

lemma ResetMassData_fixtures: "m_fixtures (ResetMassData massOf fs b) = m_fixtures b"
  by (simp add: ResetMassData_def UnsetMassDataDirty_def Let_def)

lemma SetMassDataDirty_fixtures: "m_fixtures (SetMassDataDirty b) = m_fixtures b"
  by (simp add: SetMassDataDirty_def)

lemma IsFor_trans:
  "IsFor c fA iA fB iB \<Longrightarrow> IsFor c' (m_fixtureA c) (m_indexA c) (m_fixtureB c) (m_indexB c)
     \<Longrightarrow> IsFor c' fA iA fB iB"
  by (auto simp: IsFor_def Let_def)

lemma contact_exists_iff:
  "contact_exists cs bodyA fA iA fB iB es
     = (\<exists>e \<in> set es. ce_other e = bodyA \<and> IsFor (cs (ce_contact e)) fA iA fB iB)"
  by (induction es) auto

lemma unique_contacts_cong:
  "(\<And>x. x \<in> set xs \<Longrightarrow> cs x = cs' x) \<Longrightarrow> unique_contacts cs xs = unique_contacts cs' xs"
  by (induction xs) auto

lemma unique_contacts_count:
  "unique_contacts cs xs \<Longrightarrow> length (filter (\<lambda>c. IsFor (cs c) fA iA fB iB) xs) \<le> 1"
proof (induction xs)
  case Nil
  then show ?case by simp
next
  case (Cons c rest)
  show ?case
  proof (cases "IsFor (cs c) fA iA fB iB")
    case True
    have "filter (\<lambda>c. IsFor (cs c) fA iA fB iB) rest = []"
    proof (rule ccontr)
      assume "filter (\<lambda>c. IsFor (cs c) fA iA fB iB) rest \<noteq> []"
      then obtain c' where c': "c' \<in> set rest" "IsFor (cs c') fA iA fB iB"
        by (metis (mono_tags, lifting) filter_False)
      from Cons.prems c'(1)
      have n: "\<not> IsFor (cs c') (m_fixtureA (cs c)) (m_indexA (cs c)) (m_fixtureB (cs c)) (m_indexB (cs c))"
        by simp
      from True c'(2) n show False by (auto simp: IsFor_def Let_def)
    qed
    with True show ?thesis by simp
  next
    case False
    with Cons show ?thesis by simp
  qed
qed

lemma Add_contact_fields:
  "m_contacts (Add_contact c world) = c # m_contacts world"
  "contacts (Add_contact c world) = contacts world"
  "fixtures (Add_contact c world) = fixtures world"
  by (simp_all add: Add_contact_def Let_def update_body_def)

lemma Add_contact_edges:
  "set (m_contactEdges (bodies (Add_contact c world) x))
     = set (m_contactEdges (bodies world x))
       \<union> (if x = contact_bodyA world c then {\<lparr>ce_other = contact_bodyB world c, ce_contact = c\<rparr>} else {})
       \<union> (if x = contact_bodyB world c then {\<lparr>ce_other = contact_bodyA world c, ce_contact = c\<rparr>} else {})"
  by (auto simp add: Add_contact_def Let_def update_body_def SetAwake_def contact_bodyA_def contact_bodyB_def)


lemma Add_contact_invariant:
  assumes inv: "contacts_invariant world"
      and fresh: "c \<notin> set (m_contacts world)"
      and isfor: "IsFor contact fixtureA indexA fixtureB indexB"
      and nex: "\<not> contact_exists (contacts world) (m_body (fixtures world fixtureA))
                    fixtureA indexA fixtureB indexB
                    (m_contactEdges (bodies world (m_body (fixtures world fixtureB))))"
  shows "contacts_invariant (Add_contact c (world\<lparr>contacts := (contacts world)(c := contact)\<rparr>))"
proof -
  let ?w1 = "world\<lparr>contacts := (contacts world)(c := contact)\<rparr>"
  let ?w' = "Add_contact c ?w1"
  have old: "\<And>x. x \<in> set (m_contacts world) \<Longrightarrow> contacts ?w1 x = contacts world x"
    using fresh by auto
  have bA: "\<And>x. x \<in> set (m_contacts world) \<Longrightarrow> contact_bodyA ?w' x = contact_bodyA world x"
    and bB: "\<And>x. x \<in> set (m_contacts world) \<Longrightarrow> contact_bodyB ?w' x = contact_bodyB world x"
    using fresh by (auto simp: contact_bodyA_def contact_bodyB_def Add_contact_fields)
  have nbA: "contact_bodyA ?w' c = contact_bodyA ?w1 c" and nbB: "contact_bodyB ?w' c = contact_bodyB ?w1 c"
    by (simp_all add: contact_bodyA_def contact_bodyB_def Add_contact_fields)
  have sub: "\<And>x. set (m_contactEdges (bodies world x)) \<subseteq> set (m_contactEdges (bodies ?w' x))"
    by (auto simp: Add_contact_edges)
  from inv have linked: "edges_linked world" and uniq: "unique_contacts (contacts world) (m_contacts world)"
    by (simp_all add: contacts_invariant_def)
  have linked': "edges_linked ?w'"
    unfolding edges_linked_def
  proof
    fix x assume "x \<in> set (m_contacts ?w')"
    then consider "x = c" | "x \<in> set (m_contacts world)"
      by (auto simp: Add_contact_fields)
    then show "\<lparr>ce_other = contact_bodyB ?w' x, ce_contact = x\<rparr>
                 \<in> set (m_contactEdges (bodies ?w' (contact_bodyA ?w' x)))
             \<and> \<lparr>ce_other = contact_bodyA ?w' x, ce_contact = x\<rparr>
                 \<in> set (m_contactEdges (bodies ?w' (contact_bodyB ?w' x)))"
    proof cases
      case 1
      then show ?thesis by (simp add: nbA nbB Add_contact_edges)
    next
      case 2
      with linked have
        "\<lparr>ce_other = contact_bodyB world x, ce_contact = x\<rparr>
            \<in> set (m_contactEdges (bodies world (contact_bodyA world x)))"
        "\<lparr>ce_other = contact_bodyA world x, ce_contact = x\<rparr>
            \<in> set (m_contactEdges (bodies world (contact_bodyB world x)))"
        by (auto simp: edges_linked_def)
      with sub 2 show ?thesis by (auto simp: bA bB)
    qed
  qed
  have none: "\<not> IsFor (contacts world x) (m_fixtureA contact) (m_indexA contact)
                   (m_fixtureB contact) (m_indexB contact)"
    if x: "x \<in> set (m_contacts world)" for x
  proof
    assume "IsFor (contacts world x) (m_fixtureA contact) (m_indexA contact)
                   (m_fixtureB contact) (m_indexB contact)"
    with isfor have xf: "IsFor (contacts world x) fixtureA indexA fixtureB indexB"
      by (rule IsFor_trans)
    from linked x have e:
      "\<lparr>ce_other = contact_bodyB world x, ce_contact = x\<rparr>
          \<in> set (m_contactEdges (bodies world (contact_bodyA world x)))"
      "\<lparr>ce_other = contact_bodyA world x, ce_contact = x\<rparr>
          \<in> set (m_contactEdges (bodies world (contact_bodyB world x)))"
      by (auto simp: edges_linked_def)
    from xf have "\<lparr>ce_other = m_body (fixtures world fixtureA), ce_contact = x\<rparr>
          \<in> set (m_contactEdges (bodies world (m_body (fixtures world fixtureB))))"
      using e by (auto simp: IsFor_def Let_def contact_bodyA_def contact_bodyB_def)
    with xf nex show False
      by (auto simp: contact_exists_iff)
  qed
  have "unique_contacts (contacts ?w1) (c # m_contacts world)"
    using none uniq unique_contacts_cong[of "m_contacts world" "contacts ?w1" "contacts world"] old
    by simp
  then have "unique_contacts (contacts ?w') (m_contacts ?w')"
    by (simp add: Add_contact_fields)
  with linked' show ?thesis by (simp add: contacts_invariant_def)
qed

lemma Add_cases:
  assumes "Add ndebug MaxContacts Create proxyA proxyB world = Inr (r, world')"
  shows "(r = False \<and> world' = world)
       \<or> (r = True
          \<and> m_body (fixtures world (fp_fixture proxyA)) \<noteq> m_body (fixtures world (fp_fixture proxyB))
          \<and> \<not> contact_exists (contacts world) (m_body (fixtures world (fp_fixture proxyA)))
                 (fp_fixture proxyA) (fp_childIndex proxyA) (fp_fixture proxyB) (fp_childIndex proxyB)
                 (m_contactEdges (bodies world (m_body (fixtures world (fp_fixture proxyB)))))
          \<and> ShouldCollide world (m_body (fixtures world (fp_fixture proxyB)))
                 (m_body (fixtures world (fp_fixture proxyA)))
          \<and> (\<exists>c contact. Create world (fp_fixture proxyA) (fp_childIndex proxyA)
                              (fp_fixture proxyB) (fp_childIndex proxyB) = Some (c, contact)
                \<and> world' = Add_contact c (world\<lparr>contacts := (contacts world)(c := contact)\<rparr>)))"
  using assms
  by (auto simp: Add_def Let_def split: if_splits option.splits)


lemma unique_contacts_removeAll:
  "unique_contacts cs xs \<Longrightarrow> unique_contacts cs (removeAll c xs)"
  by (induction xs) auto

lemma Remove_fields:
  "m_contacts (Remove c world) = removeAll c (m_contacts world)"
  "contacts (Remove c world) = contacts world"
  "fixtures (Remove c world) = fixtures world"
  by (simp_all add: Remove_def Let_def update_body_def)

lemma Remove_edges:
  "ce_contact e \<noteq> c \<Longrightarrow> e \<in> set (m_contactEdges (bodies world x))
     \<Longrightarrow> e \<in> set (m_contactEdges (bodies (Remove c world) x))"
  by (auto simp add: Remove_def Let_def update_body_def)

lemma Remove_invariant:
  assumes "contacts_invariant world"
  shows "contacts_invariant (Remove c world)"
proof -
  from assms have linked: "edges_linked world"
    and uniq: "unique_contacts (contacts world) (m_contacts world)"
    by (simp_all add: contacts_invariant_def)
  have "edges_linked (Remove c world)"
    unfolding edges_linked_def
  proof
    fix x assume "x \<in> set (m_contacts (Remove c world))"
    then have x: "x \<in> set (m_contacts world)" "x \<noteq> c"
      by (simp_all add: Remove_fields)
    have b: "contact_bodyA (Remove c world) x = contact_bodyA world x"
            "contact_bodyB (Remove c world) x = contact_bodyB world x"
      by (simp_all add: contact_bodyA_def contact_bodyB_def Remove_fields)
    from linked x(1) have
      "\<lparr>ce_other = contact_bodyB world x, ce_contact = x\<rparr>
          \<in> set (m_contactEdges (bodies world (contact_bodyA world x)))"
      "\<lparr>ce_other = contact_bodyA world x, ce_contact = x\<rparr>
          \<in> set (m_contactEdges (bodies world (contact_bodyB world x)))"
      by (auto simp: edges_linked_def)
    with x(2) show "\<lparr>ce_other = contact_bodyB (Remove c world) x, ce_contact = x\<rparr>
                 \<in> set (m_contactEdges (bodies (Remove c world) (contact_bodyA (Remove c world) x)))
             \<and> \<lparr>ce_other = contact_bodyA (Remove c world) x, ce_contact = x\<rparr>
                 \<in> set (m_contactEdges (bodies (Remove c world) (contact_bodyB (Remove c world) x)))"
      by (simp add: b Remove_edges)
  qed
  moreover have "unique_contacts (contacts (Remove c world)) (m_contacts (Remove c world))"
    using uniq by (simp add: Remove_fields unique_contacts_removeAll)
  ultimately show ?thesis by (simp add: contacts_invariant_def)
qed

lemma Destroy_invariant:
  "contacts_invariant world \<Longrightarrow> contacts_invariant (Destroy c world)"
proof -
  assume inv: "contacts_invariant world"
  have "contacts_invariant (world\<lparr>m_events := ev\<rparr>)" for ev
    using inv by (simp add: contacts_invariant_def edges_linked_def contact_bodyA_def contact_bodyB_def)
  with inv show ?thesis
    by (simp add: Destroy_def Let_def Remove_invariant)
qed

text \<open>
  What \<^verbatim>\<open>ContactManager::Add\<close> does for the uniqueness of contacts. Let the contact lists
  be well formed (every contact of the world's list has its two nodes in the edge lists
  of the bodies of its fixtures, and no two contacts of the list are for the same two
  fixtures and child indices in either order), and let the contact factory return, if
  anything, a fresh contact for the two proxies in either order. Then \<open>Add\<close> fails only
  on an assertion of the debug build, and when it returns: the lists are well formed
  again; for every \<open>(fixtureA, indexA, fixtureB, indexB)\<close> at most one contact of the
  world's list is for it; when the two fixtures are on the same body, or an edge of body
  B to body A holds a contact for the pair in either order, no contact is added and the
  world is unchanged; and destroying a contact keeps the lists well formed.
\<close>

lemma Add_keeps_well_formed_lists:
  assumes inv: "contacts_invariant world"
      and create: "\<forall>c contact. Create world (fp_fixture proxyA) (fp_childIndex proxyA)
                       (fp_fixture proxyB) (fp_childIndex proxyB) = Some (c, contact)
                     \<longrightarrow> c \<notin> set (m_contacts world)
                         \<and> IsFor contact (fp_fixture proxyA) (fp_childIndex proxyA)
                                          (fp_fixture proxyB) (fp_childIndex proxyB)"
  shows "case Add ndebug MaxContacts Create proxyA proxyB world of
           Inl failed \<Rightarrow> \<not> ndebug
         | Inr (added, world') \<Rightarrow>
             contacts_invariant world'
             \<and> length (contacts_for world' fixtureA indexA fixtureB indexB) \<le> 1
             \<and> (m_body (fixtures world (fp_fixture proxyA)) = m_body (fixtures world (fp_fixture proxyB))
                  \<longrightarrow> \<not> added \<and> world' = world)
             \<and> (contact_exists (contacts world) (m_body (fixtures world (fp_fixture proxyA)))
                   (fp_fixture proxyA) (fp_childIndex proxyA) (fp_fixture proxyB) (fp_childIndex proxyB)
                   (m_contactEdges (bodies world (m_body (fixtures world (fp_fixture proxyB)))))
                  \<longrightarrow> \<not> added \<and> world' = world)
             \<and> contacts_invariant (Destroy victim world')"
proof (cases "Add ndebug MaxContacts Create proxyA proxyB world")
  case (Inl failed)
  then show ?thesis
    by (auto simp: Add_def Let_def split: if_splits option.splits)
next
  case (Inr result)
  obtain added world' where r: "result = (added, world')" by (cases result)
  from Inr r have add: "Add ndebug MaxContacts Create proxyA proxyB world = Inr (added, world')"
    by simp
  have inv': "contacts_invariant world'"
    using Add_cases[OF add]
  proof
    assume "added = False \<and> world' = world"
    with inv show ?thesis by simp
  next
    assume a: "added = True
          \<and> m_body (fixtures world (fp_fixture proxyA)) \<noteq> m_body (fixtures world (fp_fixture proxyB))
          \<and> \<not> contact_exists (contacts world) (m_body (fixtures world (fp_fixture proxyA)))
                 (fp_fixture proxyA) (fp_childIndex proxyA) (fp_fixture proxyB) (fp_childIndex proxyB)
                 (m_contactEdges (bodies world (m_body (fixtures world (fp_fixture proxyB)))))
          \<and> ShouldCollide world (m_body (fixtures world (fp_fixture proxyB)))
                 (m_body (fixtures world (fp_fixture proxyA)))
          \<and> (\<exists>c contact. Create world (fp_fixture proxyA) (fp_childIndex proxyA)
                              (fp_fixture proxyB) (fp_childIndex proxyB) = Some (c, contact)
                \<and> world' = Add_contact c (world\<lparr>contacts := (contacts world)(c := contact)\<rparr>))"
    then obtain c contact where
      cr: "Create world (fp_fixture proxyA) (fp_childIndex proxyA)
              (fp_fixture proxyB) (fp_childIndex proxyB) = Some (c, contact)"
      and w': "world' = Add_contact c (world\<lparr>contacts := (contacts world)(c := contact)\<rparr>)"
      by blast
    from create cr have fresh: "c \<notin> set (m_contacts world)"
      and isfor: "IsFor contact (fp_fixture proxyA) (fp_childIndex proxyA) (fp_fixture proxyB) (fp_childIndex proxyB)"
      by blast+
    from a have nex: "\<not> contact_exists (contacts world) (m_body (fixtures world (fp_fixture proxyA)))
                 (fp_fixture proxyA) (fp_childIndex proxyA) (fp_fixture proxyB) (fp_childIndex proxyB)
                 (m_contactEdges (bodies world (m_body (fixtures world (fp_fixture proxyB)))))"
      by simp
    show ?thesis
      unfolding w' by (rule Add_contact_invariant[OF inv fresh isfor nex])
  qed
  then have "length (contacts_for world' fixtureA indexA fixtureB indexB) \<le> 1"
    unfolding contacts_for_def contacts_invariant_def
    using unique_contacts_count[of "contacts world'" "m_contacts world'" fixtureA indexA fixtureB indexB]
    by blast
  moreover have "m_body (fixtures world (fp_fixture proxyA)) = m_body (fixtures world (fp_fixture proxyB))
                  \<longrightarrow> \<not> added \<and> world' = world"
    using add by (auto simp: Add_def Let_def)
  moreover have "contact_exists (contacts world) (m_body (fixtures world (fp_fixture proxyA)))
                   (fp_fixture proxyA) (fp_childIndex proxyA) (fp_fixture proxyB) (fp_childIndex proxyB)
                   (m_contactEdges (bodies world (m_body (fixtures world (fp_fixture proxyB)))))
                  \<longrightarrow> \<not> added \<and> world' = world"
    using add by (auto simp: Add_def Let_def split: if_splits)
  moreover have "contacts_invariant (Destroy victim world')"
    using inv' by (rule Destroy_invariant)
  ultimately show ?thesis using inv' by (simp add: Inr r)
qed

text \<open>
  \<open>Add\<close> on the example worlds: a first pair gets a contact; with contact 5 in place the
  same pair is refused in either order, as is a pair of proxies of one body.
\<close>

lemma example_world_invariant: "contacts_invariant example_world"
  by (simp add: contacts_invariant_def edges_linked_def example_world_def)

lemma example_world_touching_invariant: "contacts_invariant example_world_touching"
  by (simp add: contacts_invariant_def edges_linked_def example_world_touching_def
      example_world_def contact_bodyA_def contact_bodyB_def example_fixture_def)

lemma example_Add_eval:
  "Add False 10 example_Create \<lparr>fp_fixture = 1, fp_childIndex = 0\<rparr> \<lparr>fp_fixture = 0, fp_childIndex = 0\<rparr>
     example_world
   = Inr (True, Add_contact 1 (example_world\<lparr>contacts := (contacts example_world)
       (1 := \<lparr>m_fixtureA = 1, m_fixtureB = 0, m_indexA = 0, m_indexB = 0,
              m_contactFlags = {e_enabledFlag}\<rparr>)\<rparr>))"
  by (simp add: Add_def Let_def example_world_def example_fixture_def example_Create_def
      ShouldCollide_def IsAccelerable_def example_body_def Body_new_def example_def_def
      GetFlags_def ContactFilter_ShouldCollide_def)

lemma example_Add_existing:
  "Add False 10 example_Create \<lparr>fp_fixture = 1, fp_childIndex = 0\<rparr> \<lparr>fp_fixture = 0, fp_childIndex = 0\<rparr>
     example_world_touching = Inr (False, example_world_touching)"
  "Add False 10 example_Create \<lparr>fp_fixture = 0, fp_childIndex = 0\<rparr> \<lparr>fp_fixture = 1, fp_childIndex = 0\<rparr>
     example_world_touching = Inr (False, example_world_touching)"
  "Add False 10 example_Create \<lparr>fp_fixture = 1, fp_childIndex = 0\<rparr> \<lparr>fp_fixture = 1, fp_childIndex = 1\<rparr>
     example_world_touching = Inr (False, example_world_touching)"
  by (simp_all add: Add_def Let_def example_world_touching_def example_world_def
      example_fixture_def IsFor_def)

lemma example_Add_existing_from_lists:
  "case Add False 10 example_Create \<lparr>fp_fixture = 0, fp_childIndex = 0\<rparr>
          \<lparr>fp_fixture = 1, fp_childIndex = 0\<rparr> example_world_touching of
     Inl failed \<Rightarrow> False
   | Inr (added, world') \<Rightarrow>
       \<not> added \<and> world' = example_world_touching \<and> contacts_invariant world'
       \<and> length (contacts_for world' 1 0 0 0) \<le> 1"
proof -
  have fresh: "\<forall>c contact. example_Create example_world_touching
                  (fp_fixture \<lparr>fp_fixture = 0, fp_childIndex = 0\<rparr>)
                  (fp_childIndex \<lparr>fp_fixture = 0, fp_childIndex = 0\<rparr>)
                  (fp_fixture \<lparr>fp_fixture = 1, fp_childIndex = 0\<rparr>)
                  (fp_childIndex \<lparr>fp_fixture = 1, fp_childIndex = 0\<rparr>) = Some (c, contact)
               \<longrightarrow> c \<notin> set (m_contacts example_world_touching)
                   \<and> IsFor contact (fp_fixture \<lparr>fp_fixture = 0, fp_childIndex = 0\<rparr>)
                        (fp_childIndex \<lparr>fp_fixture = 0, fp_childIndex = 0\<rparr>)
                        (fp_fixture \<lparr>fp_fixture = 1, fp_childIndex = 0\<rparr>)
                        (fp_childIndex \<lparr>fp_fixture = 1, fp_childIndex = 0\<rparr>)"
    by (simp add: example_Create_def example_world_touching_def example_world_def IsFor_def)
  show ?thesis
    using Add_keeps_well_formed_lists[where world = example_world_touching
        and Create = example_Create
        and proxyA = "\<lparr>fp_fixture = 0, fp_childIndex = 0\<rparr>"
        and proxyB = "\<lparr>fp_fixture = 1, fp_childIndex = 0\<rparr>"
        and ndebug = False and MaxContacts = 10
        and fixtureA = 1 and indexA = 0 and fixtureB = 0 and indexB = 0 and victim = 5,
        OF example_world_touching_invariant fresh]
    unfolding example_Add_existing
    by simp
qed

text \<open>
  \<^verbatim>\<open>Body::DestroyFixtures\<close> is where the lists stop being well formed: it frees every
  fixture of the body and destroys their proxies, but, unlike \<^verbatim>\<open>Body::DestroyFixture\<close>
  (which destroys the contacts of the fixture it frees) and unlike the destructor of a
  body (which calls \<^verbatim>\<open>DestroyContacts\<close> first), it leaves the contacts of those fixtures
  in the world's list, joined to freed fixtures.
\<close>

lemma example_world_attached_invariant: "contacts_invariant example_world_attached"
  by (simp add: contacts_invariant_def edges_linked_def example_world_attached_def
      example_world_touching_def example_world_def contact_bodyA_def contact_bodyB_def
      example_fixture_def)

lemma example_world_attached_unlocked: "\<not> IsLocked example_world_attached"
  by (simp add: IsLocked_def e_locked_def example_world_attached_def example_world_touching_def
      example_world_def)

lemma example_world_freed_eval:
  "example_world_freed =
     example_world_attached
       \<lparr>fixtures := (fixtures example_world_attached)
          (1 := (fixtures example_world_attached 1)\<lparr>m_proxies := []\<rparr>),
        bodies := (bodies example_world_attached)
          (1 := ResetMassData (GetMassData example_ops)
                  ((fixtures example_world_attached)
                     (1 := (fixtures example_world_attached 1)\<lparr>m_proxies := []\<rparr>))
                  ((bodies example_world_attached 1)\<lparr>m_fixtures := []\<rparr>))\<rparr>"
proof -
  have f: "m_fixtures (bodies example_world_attached (Suc 0)) = [Suc 0]"
    by (simp add: example_world_attached_def)
  have l: "\<not> m_destructionListener example_world_attached"
    by (simp add: example_world_attached_def example_world_touching_def example_world_def)
  have d: "DestroyProxies example_ops = (\<lambda>broadPhase fixture. broadPhase)"
    by (simp add: example_ops_def)
  show ?thesis
    unfolding example_world_freed_def DestroyFixtures_def
    using example_world_attached_unlocked
    by (simp add: Let_def f l d update_body_def)
qed

lemma example_world_freed_facts:
  "\<not> IsLocked example_world_freed"
  "m_contacts example_world_freed = [5]"
  "m_fixtures (bodies example_world_freed 1) = []"
  "IsActive (bodies example_world_freed 3)"
  "m_linearSlop example_world_freed = Finite (1 / 1000)"
  "m_maxVertexRadius example_world_freed = Finite 255"
  unfolding example_world_freed_eval
  by (simp_all add: example_world_attached_def example_world_touching_def example_world_def
      IsLocked_def e_locked_def ResetMassData_fixtures IsActive_def example_body_def
      Body_new_def example_def_def GetFlags_def)

lemma example_reuse_valid:
  "IsValid_shape (Some \<lparr>vertexRadius = Finite (1 / 100)\<rparr>) example_world_freed"
  "IsValid_def (example_FixtureDef (Finite 1))"
  by (simp_all add: IsValid_shape_def GetMinVertexRadius_def GetMaxVertexRadius_def RealNum_ge_def
      example_world_freed_facts IsValid_def_def example_FixtureDef_def RealNum_greater_def)

lemma example_CreateFixture_reuse_eval:
  "CreateFixture False example_ops example_Allocate_reuse (Some \<lparr>vertexRadius = Finite (1 / 100)\<rparr>)
     (example_FixtureDef (Finite 1)) True 3 example_world_freed = Inr (Some 1, example_world_reused)"
  using example_reuse_valid example_world_freed_facts(1)
  by (simp add: example_world_reused_def CreateFixture_def example_Allocate_reuse_def Let_def)

lemma example_world_reused_facts:
  "m_body (fixtures example_world_reused 1) = 3"
  "m_body (fixtures example_world_reused 0) = 0"
  "m_contacts example_world_reused = [5]"
  "contacts example_world_reused = contacts example_world_touching"
  "m_contactEdges (bodies example_world_reused 0) = [\<lparr>ce_other = 1, ce_contact = 5\<rparr>]"
  "m_joints (bodies example_world_reused 0) = []"
  "IsAccelerable (bodies example_world_reused 3)"
  "m_contactFilter example_world_reused = Some ContactFilter_ShouldCollide"
  "m_filter (fixtures example_world_reused 1) = \<lparr>categoryBits = 1, maskBits = 0xFFFF, groupIndex = 0\<rparr>"
  "m_filter (fixtures example_world_reused 0) = \<lparr>categoryBits = 1, maskBits = 0xFFFF, groupIndex = 0\<rparr>"
proof -
  note v = example_reuse_valid example_world_freed_facts(1,4)
  note unfold = example_world_reused_def CreateFixture_def example_Allocate_reuse_def Let_def
      update_body_def SetNewFixtures_def Fixture_new_def example_FixtureDef_def example_ops_def
      RealNum_greater_def
  note world = example_world_freed_eval example_world_attached_def example_world_touching_def
      example_world_def example_fixture_def
  show "m_body (fixtures example_world_reused 1) = 3"
    using v by (simp add: unfold)
  show "m_body (fixtures example_world_reused 0) = 0"
    using v by (simp add: unfold) (simp add: world)
  show "m_contacts example_world_reused = [5]"
    using v by (simp add: unfold example_world_freed_facts(2))
  show "contacts example_world_reused = contacts example_world_touching"
    using v by (simp add: unfold) (simp add: world)
  show "m_contactEdges (bodies example_world_reused 0) = [\<lparr>ce_other = 1, ce_contact = 5\<rparr>]"
    using v by (simp add: unfold) (simp add: world)
  show "m_joints (bodies example_world_reused 0) = []"
    using v by (simp add: unfold) (simp add: world example_body_def Body_new_def)
  show "IsAccelerable (bodies example_world_reused 3)"
    using v by (simp add: unfold)
      (simp add: world example_body_def Body_new_def example_def_def GetFlags_def
        IsAccelerable_def ResetMassData_def SetMassDataDirty_def UnsetMassDataDirty_def Let_def)
  show "m_contactFilter example_world_reused = Some ContactFilter_ShouldCollide"
    using v by (simp add: unfold) (simp add: world)
  show "m_filter (fixtures example_world_reused 1) = \<lparr>categoryBits = 1, maskBits = 0xFFFF, groupIndex = 0\<rparr>"
    using v by (simp add: unfold)
  show "m_filter (fixtures example_world_reused 0) = \<lparr>categoryBits = 1, maskBits = 0xFFFF, groupIndex = 0\<rparr>"
    using v by (simp add: unfold) (simp add: world)
qed

text \<open>
  Claim C1. The claim fails on the code. In the example world whose contact 5 joins
  fixture 1 (of body 1) and fixture 0 (of body 0), and whose contact lists are well formed
  (\<open>example_world_attached_invariant\<close>), \<^verbatim>\<open>DestroyFixtures\<close> on body 1 returns with
  the contact still in the world's list. A fixture is then created on body 3 at the
  address the allocator has got back (that of fixture 1, see
  \<open>example_CreateFixture_reuse_eval\<close>), and the broad-phase reports the pair of this
  fixture and fixture 0. \<open>Add\<close> looks for an existing contact among the edges of body 0
  to body 3, finds none (the edge of contact 5 leads to body 1), and creates contact 6:
  the world's list then holds two contacts for fixture 1, child 0, fixture 0, child 0. No
  assertion of the debug build fires on the way.
\<close>

theorem DestroyFixtures_leaves_contacts_for_Add_to_duplicate:
  "DestroyFixtures False example_ops 1 example_world_attached = Inr example_world_freed
   \<and> m_fixtures (bodies example_world_freed 1) = []
   \<and> m_contacts example_world_freed = [5]
   \<and> m_body (fixtures example_world_reused 1) = 3
   \<and> m_contacts example_world_reused = [5]
   \<and> IsFor (contacts example_world_reused 5) 1 0 0 0
   \<and> (case Add False 10 example_Create \<lparr>fp_fixture = 1, fp_childIndex = 0\<rparr>
              \<lparr>fp_fixture = 0, fp_childIndex = 0\<rparr> example_world_reused of
         Inl failed \<Rightarrow> False
       | Inr (added, world') \<Rightarrow>
           added \<and> m_contacts world' = [6, 5]
           \<and> contacts_for world' 1 0 0 0 = [6, 5])"
proof -
  have a: "DestroyFixtures False example_ops 1 example_world_attached = Inr example_world_freed"
    using example_world_attached_unlocked
    by (simp add: example_world_freed_def DestroyFixtures_def Let_def)
  have b: "IsFor (contacts example_world_reused 5) 1 0 0 0"
    by (simp add: example_world_reused_facts(4) example_world_touching_def IsFor_def)
  have c: "case Add False 10 example_Create \<lparr>fp_fixture = 1, fp_childIndex = 0\<rparr>
              \<lparr>fp_fixture = 0, fp_childIndex = 0\<rparr> example_world_reused of
         Inl failed \<Rightarrow> False
       | Inr (added, world') \<Rightarrow>
           added \<and> m_contacts world' = [6, 5]
           \<and> contacts_for world' 1 0 0 0 = [6, 5]"
    using example_world_reused_facts
    by (simp add: Add_def Let_def ShouldCollide_def ContactFilter_ShouldCollide_def
        example_Create_def Add_contact_fields contacts_for_def IsFor_def
        example_world_touching_def example_world_def)
  from a b c example_world_freed_facts(2,3) example_world_reused_facts(1,3) show ?thesis
    by (intro conjI)
qed

subsection \<open>Contacts kept by the narrow-phase refresh\<close>
























text \<open>
  The hypothesis on \<open>Update\<close> is needed. In the example world with both contacts the
  loop skips contact 7 between the sleeping bodies 3 and 4, then updates contact 5; when
  a callback of that update wakes body 3, contact 7 is left in the list with proxies that
  do not overlap and with a body that is awake and speedable.
\<close>

lemma Collide_waking_update_example:
  "7 \<in> set (m_contacts (fst (Collide BroadPhase_TestOverlap example_Update_waking
                               example_world_two_contacts)))
   \<and> \<not> contact_overlap BroadPhase_TestOverlap
         (fst (Collide BroadPhase_TestOverlap example_Update_waking example_world_two_contacts)) 7
   \<and> is_collidable (bodies (fst (Collide BroadPhase_TestOverlap example_Update_waking
                                    example_world_two_contacts)) 3)
   \<and> contact_bodyA (fst (Collide BroadPhase_TestOverlap example_Update_waking
                            example_world_two_contacts)) 7 = 3"
  by (simp add: Collide_def Collide_contact_def example_world_two_contacts_def
      example_world_asleep_def example_world_def
      NeedsFiltering_def is_collidable_def example_body_def Body_new_def example_def_def
      GetFlags_def example_fixture_def Let_def contact_overlap_def update_contact_def
      BroadPhase_TestOverlap_def AABB_TestOverlap_def AABB_of_def Vec2_sub_def
      contact_bodyA_def SetEnabled_def example_Update_def example_Update_waking_def
      update_body_def SetAwake_def)

subsection \<open>Operations on a body of a locked world\<close>

text \<open>
  Claim C3, as amended. When the world of a body is locked, \<^verbatim>\<open>Body::SetType\<close>,
  \<^verbatim>\<open>Body::DestroyFixture\<close>, \<^verbatim>\<open>Body::DestroyFixtures\<close> and \<^verbatim>\<open>Body::SetTransform\<close>
  return at once in a build with assertions compiled out (\<^verbatim>\<open>NDEBUG\<close>) and leave the
  whole world state (the fixtures, type and transform of the body with it) as it was; in
  a build with assertions each of them aborts on \<^verbatim>\<open>assert(!m_world->IsLocked())\<close>, which
  stands ahead of the guard.
\<close>

theorem locked_operations_are_no_ops:
  assumes "IsLocked world"
  shows "SetType ndebug ops type b world = (if ndebug then Inr world else Inl AssertionFailed)
       \<and> DestroyFixture ndebug ops fixture resetMassData b world
           = (if ndebug then Inr world else Inl AssertionFailed)
       \<and> DestroyFixtures ndebug ops b world = (if ndebug then Inr world else Inl AssertionFailed)
       \<and> SetTransform ndebug ops position angle b world
           = (if ndebug then Inr world else Inl AssertionFailed)"
  using assms by (simp add: SetType_def DestroyFixture_def DestroyFixtures_def SetTransform_def)

lemma example_world_locked_IsLocked: "IsLocked example_world_locked"
  by (simp add: IsLocked_def example_world_locked_def e_locked_def)

theorem locked_operations_are_no_ops_witness:
  "SetType True example_ops Static 1 example_world_locked = Inr example_world_locked
   \<and> DestroyFixture True example_ops 1 True 1 example_world_locked = Inr example_world_locked
   \<and> DestroyFixtures True example_ops 1 example_world_locked = Inr example_world_locked
   \<and> SetTransform True example_ops (Vec2 3 4) 1 1 example_world_locked = Inr example_world_locked"
  using locked_operations_are_no_ops[OF example_world_locked_IsLocked, where ndebug = True]
  by simp

text \<open>
  The claim C3 as stated fails in a build with assertions: on the locked example world
  none of the four operations returns; each aborts on its assertion.
\<close>

theorem locked_operations_abort_counterexample:
  "SetType False example_ops Static 1 example_world_locked = Inl AssertionFailed
   \<and> DestroyFixture False example_ops 1 True 1 example_world_locked = Inl AssertionFailed
   \<and> DestroyFixtures False example_ops 1 example_world_locked = Inl AssertionFailed
   \<and> SetTransform False example_ops (Vec2 3 4) 1 1 example_world_locked = Inl AssertionFailed"
  using example_world_locked_IsLocked
  by (simp add: SetType_def DestroyFixture_def DestroyFixtures_def SetTransform_def)

subsection \<open>Creation of a fixture\<close>

lemma restitution_check:
  "(RealNum_less r PosInf \<and> RealNum_greater r (RealNum_neg PosInf)) = RealNum_is_finite r"
  by (cases r) (simp_all add: RealNum_greater_def)

lemma IsValid_def_iff:
  "IsValid_def fdef = (RealNum_ge (density fdef) (Finite 0) \<and> RealNum_ge (friction fdef) (Finite 0)
                       \<and> RealNum_is_finite (restitution fdef))"
  using restitution_check[of "restitution fdef"] by (auto simp: IsValid_def_def)

lemma IsValid_shape_iff:
  "IsValid_shape shape world =
     (case shape of None \<Rightarrow> False
      | Some sh \<Rightarrow> RealNum_ge (vertexRadius sh) (GetMinVertexRadius world)
                  \<and> RealNum_le (vertexRadius sh) (GetMaxVertexRadius world))"
  by (auto simp: IsValid_shape_def Let_def split: option.splits)

lemma CreateFixture_attaches:
  assumes "CreateFixture ndebug ops Allocate shape fdef resetMassData b world = Inr (Some fixture, world')"
  shows "fixture \<in> set (m_fixtures (bodies world' b)) \<and> m_body (fixtures world' fixture) = b"
  using assms
  by (auto simp: CreateFixture_def Let_def update_body_def SetNewFixtures_def Fixture_new_def
      ResetMassData_fixtures SetMassDataDirty_fixtures split: if_splits)

lemma CreateFixture_null:
  assumes "CreateFixture ndebug ops Allocate shape fdef resetMassData b world = Inr (None, world')"
  shows "world' = world"
  using assms
  by (auto simp: CreateFixture_def Let_def split: if_splits)

lemma CreateFixture_release:
  "\<exists>result world'. CreateFixture True ops Allocate shape fdef resetMassData b world = Inr (result, world')
     \<and> (result = None) = (IsLocked world \<or> \<not> IsValid_shape shape world \<or> \<not> IsValid_def fdef)"
  by (auto simp: CreateFixture_def Let_def)

lemma CreateFixture_debug:
  "CreateFixture False ops Allocate shape fdef resetMassData b world
     = (if IsValid_shape shape world \<and> IsValid_def fdef \<and> IsLocked world then Inl AssertionFailed
        else CreateFixture True ops Allocate shape fdef resetMassData b world)"
  by (simp add: CreateFixture_def)

text \<open>
  Claim C4, as amended. In a build with assertions compiled out \<^verbatim>\<open>Body::CreateFixture\<close>
  always returns, and it returns null exactly when the world is locked, or the shape is
  null or its vertex radius is not within \<open>[GetMinVertexRadius, GetMaxVertexRadius]\<close> of
  the world, or the definition does not have density \<open>\<ge> 0\<close>, friction \<open>\<ge> 0\<close> and a
  finite restitution (comparisons with NaN being false). A null result leaves the world
  as it was; otherwise the result is a fixture of the body's fixture list whose body is
  this body. A build with assertions does the same, except that with a locked world, a
  valid shape and a valid definition it aborts on \<^verbatim>\<open>assert(!m_world->IsLocked())\<close> instead
  of returning null.
\<close>

theorem CreateFixture_null_exactly_when_rejected:
  "(case CreateFixture True ops Allocate shape fdef resetMassData b world of
      Inl failed \<Rightarrow> False
    | Inr (result, world') \<Rightarrow>
        ((result = None) =
           (IsLocked world
            \<or> (case shape of
                  None \<Rightarrow> True
                | Some sh \<Rightarrow> \<not> (RealNum_ge (vertexRadius sh) (GetMinVertexRadius world)
                                \<and> RealNum_le (vertexRadius sh) (GetMaxVertexRadius world)))
            \<or> \<not> RealNum_ge (density fdef) (Finite 0)
            \<or> \<not> RealNum_ge (friction fdef) (Finite 0)
            \<or> \<not> RealNum_is_finite (restitution fdef)))
        \<and> (case result of
              None \<Rightarrow> world' = world
            | Some fixture \<Rightarrow> fixture \<in> set (m_fixtures (bodies world' b))
                               \<and> m_body (fixtures world' fixture) = b))
   \<and> CreateFixture False ops Allocate shape fdef resetMassData b world
       = (if IsLocked world
             \<and> (case shape of
                   None \<Rightarrow> False
                 | Some sh \<Rightarrow> RealNum_ge (vertexRadius sh) (GetMinVertexRadius world)
                               \<and> RealNum_le (vertexRadius sh) (GetMaxVertexRadius world))
             \<and> RealNum_ge (density fdef) (Finite 0)
             \<and> RealNum_ge (friction fdef) (Finite 0)
             \<and> RealNum_is_finite (restitution fdef)
          then Inl AssertionFailed
          else CreateFixture True ops Allocate shape fdef resetMassData b world)"
proof -
  obtain result world' where
    r: "CreateFixture True ops Allocate shape fdef resetMassData b world = Inr (result, world')"
    and n: "(result = None) = (IsLocked world \<or> \<not> IsValid_shape shape world \<or> \<not> IsValid_def fdef)"
    using CreateFixture_release[of ops Allocate shape fdef resetMassData b world] by blast
  have "case result of
          None \<Rightarrow> world' = world
        | Some fixture \<Rightarrow> fixture \<in> set (m_fixtures (bodies world' b))
                           \<and> m_body (fixtures world' fixture) = b"
    using r CreateFixture_null[of True ops Allocate shape fdef resetMassData b world world']
      CreateFixture_attaches[of True ops Allocate shape fdef resetMassData b world _ world']
    by (cases result) simp_all
  with n have release:
    "case CreateFixture True ops Allocate shape fdef resetMassData b world of
      Inl failed \<Rightarrow> False
    | Inr (result, world') \<Rightarrow>
        ((result = None) =
           (IsLocked world
            \<or> (case shape of
                  None \<Rightarrow> True
                | Some sh \<Rightarrow> \<not> (RealNum_ge (vertexRadius sh) (GetMinVertexRadius world)
                                \<and> RealNum_le (vertexRadius sh) (GetMaxVertexRadius world)))
            \<or> \<not> RealNum_ge (density fdef) (Finite 0)
            \<or> \<not> RealNum_ge (friction fdef) (Finite 0)
            \<or> \<not> RealNum_is_finite (restitution fdef)))
        \<and> (case result of
              None \<Rightarrow> world' = world
            | Some fixture \<Rightarrow> fixture \<in> set (m_fixtures (bodies world' b))
                               \<and> m_body (fixtures world' fixture) = b)"
    by (auto simp: r IsValid_def_iff IsValid_shape_iff split: option.splits)
  have debug:
    "CreateFixture False ops Allocate shape fdef resetMassData b world
       = (if IsLocked world
             \<and> (case shape of
                   None \<Rightarrow> False
                 | Some sh \<Rightarrow> RealNum_ge (vertexRadius sh) (GetMinVertexRadius world)
                               \<and> RealNum_le (vertexRadius sh) (GetMaxVertexRadius world))
             \<and> RealNum_ge (density fdef) (Finite 0)
             \<and> RealNum_ge (friction fdef) (Finite 0)
             \<and> RealNum_is_finite (restitution fdef)
          then Inl AssertionFailed
          else CreateFixture True ops Allocate shape fdef resetMassData b world)"
    unfolding CreateFixture_debug IsValid_def_iff IsValid_shape_iff
    by (auto split: option.splits)
  from release debug show ?thesis by (rule conjI)
qed

theorem CreateFixture_null_exactly_when_rejected_witness:
  "(case CreateFixture True example_ops example_Allocate (Some \<lparr>vertexRadius = Finite (1 / 100)\<rparr>)
           (example_FixtureDef (Finite 1)) True 1 example_world of
      Inl failed \<Rightarrow> False
    | Inr (result, world') \<Rightarrow> result = Some 9 \<and> 9 \<in> set (m_fixtures (bodies world' 1)))
   \<and> (case CreateFixture True example_ops example_Allocate (Some \<lparr>vertexRadius = Finite (1 / 100)\<rparr>)
           (example_FixtureDef NaN) True 1 example_world of
      Inl failed \<Rightarrow> False
    | Inr (result, world') \<Rightarrow> result = None \<and> world' = example_world)
   \<and> CreateFixture True example_ops example_Allocate (Some \<lparr>vertexRadius = Finite (1 / 100)\<rparr>)
           (example_FixtureDef (Finite 1)) True 1 example_world_locked
       = Inr (None, example_world_locked)"
  using CreateFixture_null_exactly_when_rejected[where ops = example_ops
      and Allocate = example_Allocate and shape = "Some \<lparr>vertexRadius = Finite (1 / 100)\<rparr>"
      and fdef = "example_FixtureDef (Finite 1)" and resetMassData = True and b = 1
      and world = example_world]
    CreateFixture_null_exactly_when_rejected[where ops = example_ops
      and Allocate = example_Allocate and shape = "Some \<lparr>vertexRadius = Finite (1 / 100)\<rparr>"
      and fdef = "example_FixtureDef NaN" and resetMassData = True and b = 1
      and world = example_world]
    CreateFixture_null_exactly_when_rejected[where ops = example_ops
      and Allocate = example_Allocate and shape = "Some \<lparr>vertexRadius = Finite (1 / 100)\<rparr>"
      and fdef = "example_FixtureDef (Finite 1)" and resetMassData = True and b = 1
      and world = example_world_locked]
  by (simp add: CreateFixture_def IsValid_shape_def IsValid_def_def example_FixtureDef_def
      example_world_def example_world_locked_def GetMinVertexRadius_def GetMaxVertexRadius_def
      RealNum_ge_def RealNum_greater_def IsLocked_def e_locked_def example_Allocate_def Let_def
      update_body_def SetNewFixtures_def)

text \<open>
  The claim C4 as stated fails in a build with assertions: on the locked example world,
  with a valid shape and a valid definition, \<^verbatim>\<open>CreateFixture\<close> does not return null; it
  aborts on its assertion.
\<close>

theorem CreateFixture_locked_counterexample:
  "IsLocked example_world_locked
   \<and> IsValid_shape (Some \<lparr>vertexRadius = Finite (1 / 100)\<rparr>) example_world_locked
   \<and> IsValid_def (example_FixtureDef (Finite 1))
   \<and> CreateFixture False example_ops example_Allocate (Some \<lparr>vertexRadius = Finite (1 / 100)\<rparr>)
        (example_FixtureDef (Finite 1)) True 1 example_world_locked = Inl AssertionFailed"
  by (simp add: CreateFixture_def IsValid_shape_def IsValid_def_def example_FixtureDef_def
      example_world_def example_world_locked_def GetMinVertexRadius_def GetMaxVertexRadius_def
      RealNum_ge_def RealNum_greater_def IsLocked_def e_locked_def Let_def)

subsection \<open>Termination of the GJK iteration\<close>




lemma Dot_InverseRotate: "Dot v (InverseRotate d q) = Dot (Rotate v q) d"
  by (simp add: Dot_def InverseRotate_def Rotate_def algebra_simps)


























subsection \<open>Mass data of a box\<close>

lemma box_sums:
  "fold (add_triangle Vec2_zero)
        (zip (polygon_vertices (SetAsBox hx hy)) (rotate1 (polygon_vertices (SetAsBox hx hy))))
        \<lparr>sum_area = 0, sum_center = Vec2_zero, sum_I = 0\<rparr>
   = \<lparr>sum_area = 4 * hx * hy, sum_center = Vec2_zero,
      sum_I = (16 * hx ^ 3 * hy + 16 * hx * hy ^ 3) / 12\<rparr>"
  by (simp add: SetAsBox_def add_triangle_def Let_def Vec2_zero_def Vec2_sub_def Vec2_add_def
      Vec2_scale_def Cross_def power3_eq_cube algebra_simps)

lemma box_mass_data:
  "GetMassData_polygon (SetAsBox hx hy) rho =
     \<lparr>md_mass = rho * (4 * hx * hy), md_center = Vec2_zero,
      md_I = rho * ((16 * hx ^ 3 * hy + 16 * hx * hy ^ 3) / 12)\<rparr>"
proof -
  have c: "polygon_centroid (SetAsBox hx hy) = Vec2_zero" by (simp add: SetAsBox_def)
  show ?thesis
    unfolding GetMassData_polygon_def Let_def c box_sums
    by (simp add: Vec2_zero_def Vec2_scale_def Vec2_add_def GetLengthSquared_def)
qed

text \<open>
  The unit test \<^verbatim>\<open>MassData.GetForZeroVertexRadiusRectangle\<close> expects of the box
  \<^verbatim>\<open>SetAsBox(4, 1)\<close> the mass \<open>density * (8 * 2)\<close> and the rotational inertia
  \<open>density * (8 * 2\<^sup>3 / 12 + 8\<^sup>3 * 2 / 12)\<close>, the polar moment of the rectangle of sides 8
  and 2; the model agrees.
\<close>

lemma box_mass_data_unit_test:
  "md_mass (GetMassData_polygon (SetAsBox 4 1) rho) = rho * (8 * 2)
   \<and> md_I (GetMassData_polygon (SetAsBox 4 1) rho)
       = rho * (8 * 2 * 2 * 2 / 12 + 8 * 8 * 8 * 2 / 12)"
  by (simp add: box_mass_data)

text \<open>
  Claim C7, as amended. For the rectangle of half-widths \<open>(hx, hy)\<close> centered at the
  origin, with zero vertex radius, the mass data at density \<open>rho\<close> are the mass
  \<open>4 rho hx hy\<close> and the rotational inertia \<open>rho (16 hx\<^sup>3 hy + 16 hx hy\<^sup>3) / 12\<close> about
  the origin, which is the center of mass.
\<close>

theorem box_mass_and_inertia:
  "md_mass (GetMassData_polygon (SetAsBox hx hy) rho) = 4 * rho * hx * hy
   \<and> md_I (GetMassData_polygon (SetAsBox hx hy) rho)
       = rho * (16 * hx ^ 3 * hy + 16 * hx * hy ^ 3) / 12
   \<and> md_center (GetMassData_polygon (SetAsBox hx hy) rho) = Vec2_zero"
  by (simp add: box_mass_data)

theorem box_mass_and_inertia_witness:
  "md_mass (GetMassData_polygon (SetAsBox 4 1) (21 / 10)) = 336 / 10
   \<and> md_I (GetMassData_polygon (SetAsBox 4 1) (21 / 10)) = 1904 / 10"
  using box_mass_and_inertia[of 4 1 "21 / 10"] by simp

text \<open>
  The claim C7 as stated gives half the rotational inertia: for half-widths \<open>(4, 1)\<close> and
  density 1 the inertia is \<open>272 / 3\<close>, not \<open>(8 4\<^sup>3 1 + 8 4 1\<^sup>3) / 12 = 136 / 3\<close>.
\<close>

theorem box_inertia_counterexample:
  "md_I (GetMassData_polygon (SetAsBox 4 1) 1) \<noteq> 1 * (8 * 4 ^ 3 * 1 + 8 * 4 * 1 ^ 3) / 12"
  by (simp add: box_mass_data)

subsection \<open>One solve of the position constraint of two overlapping squares\<close>

lemma scenario_solution_eval:
  "scenario_solution ls asl =
     \<lparr>pos_a = \<lparr>linear = Vec2 (99 - 2 * ((- min (2 / 10 * (- 2 + ls)) 0) / 10)) 0, angular = 0\<rparr>,
      pos_b = \<lparr>linear = Vec2 (101 + 2 * ((- min (2 / 10 * (- 2 + ls)) 0) / 10)) 0, angular = 0\<rparr>,
      min_separation = - 2\<rparr>"
  by (simp add: scenario_solution_def SolvePositionConstraint_def scenario_constraint_def
      scenario_manifold_def scenario_conf_def UseMaxLinearCorrection_def UseResolutionRate_def
      ConstraintSolverConf_default_def GetTransformation_def UnitVec2_of_angle_def GetPSM_def
      point_correction_def Let_def Rotate_def Transform_def Vec2_add_def Vec2_sub_def
      Vec2_scale_def Dot_def Cross_def Position_add_def)

text \<open>
  Claim C8. For the two squares A at \<open>(99, 0)\<close> and B at \<open>(101, 0)\<close> with the manifold of
  the unit test, one solve of the position constraint with resolution rate \<open>0.2\<close> and
  an infinite maximum linear correction, for a linear slop below the overlap of 2, moves
  A to a smaller \<open>x\<close> with \<open>y\<close> and angle unchanged, moves B to a greater \<open>x\<close> with
  \<open>y\<close> and angle unchanged, and reports the minimum separation \<open>-2\<close>.
\<close>

theorem overlapping_squares_move_apart_horizontally:
  assumes "LinearSlop < 2"
  shows "Vec2_x (linear (pos_a (scenario_solution LinearSlop AngularSlop))) < 100 - 1
       \<and> Vec2_y (linear (pos_a (scenario_solution LinearSlop AngularSlop))) = 0
       \<and> angular (pos_a (scenario_solution LinearSlop AngularSlop)) = 0
       \<and> 100 + 1 < Vec2_x (linear (pos_b (scenario_solution LinearSlop AngularSlop)))
       \<and> Vec2_y (linear (pos_b (scenario_solution LinearSlop AngularSlop))) = 0
       \<and> angular (pos_b (scenario_solution LinearSlop AngularSlop)) = 0
       \<and> min_separation (scenario_solution LinearSlop AngularSlop) = - 2"
  using assms by (simp add: scenario_solution_eval min_def)

theorem overlapping_squares_move_apart_horizontally_witness:
  "pos_a (scenario_solution (5 / 1000) (2 * pi / 180))
     = \<lparr>linear = Vec2 (99 - 399 / 5000) 0, angular = 0\<rparr>
   \<and> pos_b (scenario_solution (5 / 1000) (2 * pi / 180))
     = \<lparr>linear = Vec2 (101 + 399 / 5000) 0, angular = 0\<rparr>
   \<and> min_separation (scenario_solution (5 / 1000) (2 * pi / 180)) = - 2"
  using overlapping_squares_move_apart_horizontally[of "5 / 1000" "2 * pi / 180"]
  by (simp add: scenario_solution_eval)

end
